theory Spec2Isabelle
  imports Complex_Main "HOL-Library.Sublist"
begin

section \<open>Data model of \<open>src/api/bags.ts\<close>\<close>

text \<open>
  The class \<open>BagsProtocol\<close> of \<open>src/api/bags.ts\<close>: the launch of a token, the fee-share
  setup, the submission of transactions and the claim of fees. What the methods print
  (\<open>console.log\<close>, \<open>console.error\<close>) is left out.

  A TypeScript \<open>number\<close> is modelled by an exact rational: the finite values, with exact
  arithmetic. An optional field \<open>f?: T\<close> is a \<open>T option\<close>, \<open>None\<close> being \<open>undefined\<close>.
  \<open>NaN\<close>, the infinities and the rounding of floating point are outside the model.
\<close>

type_synonym number = rat

type_synonym bytes = "nat list"

datatype pubkey = PublicKey string

fun toString :: "pubkey \<Rightarrow> string" where
  "toString (PublicKey s) = s"

datatype js_error = Error string

datatype blob = Blob bytes string

record transaction =
  message :: string
  signers :: "pubkey list"

text \<open>\<open>tx.sign([keypair])\<close>: the transaction with the signatures of the given keys added.\<close>

definition sign :: "transaction \<Rightarrow> pubkey list \<Rightarrow> transaction" where
  "sign tx ks = tx\<lparr>signers := signers tx @ ks\<rparr>"

record TokenLaunchParams =
  name :: string
  symbol :: string
  description :: string
  imageUrl :: "string option"
  imageFile :: "bytes option"
  twitter :: "string option"
  telegram :: "string option"
  website :: "string option"
  initialBuyAmountSol :: "number option"
  feeShareTwitter :: "string option"
  creatorFeeBps :: "number option"
  feeShareBps :: "number option"

record LaunchResult =
  tokenMint :: string
  signature :: string
  metadataUrl :: string
  bagsUrl :: string
  configKey :: "string option"
  feeShareWallet :: "string option"

subsection \<open>Values exchanged with the protocol SDK, the RPC connection and \<open>fetch\<close>\<close>

text \<open>The answer of \<open>sdk.config.getOrCreateConfig\<close> and of \<open>sdk.config.createFeeShareConfig\<close>:
  a configuration key and, when the configuration has to be created, a transaction.\<close>

record config_response =
  cr_transaction :: "transaction option"
  cr_configKey :: pubkey

record token_info =
  ti_tokenMint :: string
  ti_tokenMetadata :: string

record token_info_request =
  rq_image :: blob
  rq_name :: string
  rq_symbol :: string
  rq_description :: string
  rq_telegram :: "string option"
  rq_twitter :: "string option"
  rq_website :: "string option"

record fee_user =
  wallet :: pubkey
  bps :: number

record fee_share_request =
  users :: "fee_user list"
  payer :: pubkey
  baseMint :: pubkey
  quoteMint :: pubkey

record launch_request =
  lq_metadataUrl :: string
  lq_tokenMint :: pubkey
  launchWallet :: pubkey
  initialBuyLamports :: number
  lq_configKey :: pubkey

record send_options =
  skipPreflight :: bool
  maxRetries :: nat

record blockhash_info =
  blockhash :: string
  lastValidBlockHeight :: nat

record confirm_request =
  cf_blockhash :: string
  cf_lastValidBlockHeight :: nat
  cf_signature :: string

text \<open>
  \<open>confirmation.value.err\<close> has the type \<open>TransactionError | null\<close> of the RPC client,
  where \<open>TransactionError = {} | string\<close>: a string or an object (such as
  \<open>{ InstructionError: [0, { Custom: 1 }] }\<close>), here a list of fields with rendered values.
\<close>

datatype transaction_error = ErrString string | ErrObject "(string \<times> string) list"

record signature_result =
  err :: "transaction_error option"

record response =
  status :: nat
  body :: "js_error + blob"

record position =
  pos_baseMint :: string
  virtualPoolClaimableAmount :: nat
  dammPoolClaimableAmount :: nat

subsection \<open>Calls to the collaborators\<close>

datatype event =
    SdkGetOrCreateConfig pubkey
  | Fetch string
  | SdkCreateTokenInfoAndMetadata token_info_request
  | SdkGetLaunchWalletForTwitterUsername string
  | SdkCreateFeeShareConfig fee_share_request
  | SdkCreateLaunchTransaction launch_request
  | ConnGetLatestBlockhash
  | ConnSendTransaction transaction send_options
  | ConnConfirmTransaction confirm_request string
  | SdkGetAllClaimablePositions pubkey
  | SdkGetClaimTransaction pubkey position

type_synonym trace = "event list"

text \<open>
  The collaborators are parameters. Each answers a call from the calls made so far (the
  trace) and the arguments, with a value or a thrown error; since every call extends the
  trace, any sequence of answers is the behaviour of some environment. \<open>keypair\<close> is the
  public key of \<open>this.keypair\<close>; \<open>newPublicKey\<close> is the constructor \<open>new PublicKey(s)\<close>, which
  throws on a string that is no key.
\<close>

record env =
  keypair :: pubkey
  newPublicKey :: "string \<Rightarrow> js_error + pubkey"
  sdk_getOrCreateConfig :: "trace \<Rightarrow> pubkey \<Rightarrow> js_error + config_response"
  fetch :: "trace \<Rightarrow> string \<Rightarrow> js_error + response"
  sdk_createTokenInfoAndMetadata :: "trace \<Rightarrow> token_info_request \<Rightarrow> js_error + token_info"
  sdk_getLaunchWalletForTwitterUsername :: "trace \<Rightarrow> string \<Rightarrow> js_error + pubkey option"
  sdk_createFeeShareConfig :: "trace \<Rightarrow> fee_share_request \<Rightarrow> js_error + config_response"
  sdk_createLaunchTransaction :: "trace \<Rightarrow> launch_request \<Rightarrow> js_error + transaction"
  conn_getLatestBlockhash :: "trace \<Rightarrow> js_error + blockhash_info"
  conn_sendTransaction :: "trace \<Rightarrow> transaction \<Rightarrow> send_options \<Rightarrow> js_error + string"
  conn_confirmTransaction :: "trace \<Rightarrow> confirm_request \<Rightarrow> string \<Rightarrow> js_error + signature_result"
  sdk_getAllClaimablePositions :: "trace \<Rightarrow> pubkey \<Rightarrow> js_error + position list"
  sdk_getClaimTransaction :: "trace \<Rightarrow> pubkey \<Rightarrow> position \<Rightarrow> js_error + transaction list"

text \<open>An \<open>async\<close> method: from the trace so far to its result, a thrown error (\<open>Inl\<close>) or a
  value (\<open>Inr\<close>), and the trace extended by the calls it made.\<close>

type_synonym 'a io = "trace \<Rightarrow> (js_error + 'a) \<times> trace"

definition io_return :: "'a \<Rightarrow> 'a io" where
  "io_return x t = (Inr x, t)"

definition io_throw :: "js_error \<Rightarrow> 'a io" where
  "io_throw e t = (Inl e, t)"

definition io_lift :: "js_error + 'a \<Rightarrow> 'a io" where
  "io_lift r t = (r, t)"

definition io_bind :: "'a io \<Rightarrow> ('a \<Rightarrow> 'b io) \<Rightarrow> 'b io" where
  "io_bind m f t = (case m t of (Inl e, t') \<Rightarrow> (Inl e, t') | (Inr x, t') \<Rightarrow> f x t')"

definition call :: "event \<Rightarrow> (trace \<Rightarrow> js_error + 'a) \<Rightarrow> 'a io" where
  "call ev answer t = (answer t, t @ [ev])"

section \<open>The operations of \<open>BagsProtocol\<close>\<close>

subsection \<open>JavaScript truthiness and coercions used by the code\<close>

text \<open>\<open>if (s)\<close> on an optional string: \<open>undefined\<close> and the empty string are falsy.\<close>

fun truthy_string :: "string option \<Rightarrow> bool" where
  "truthy_string None = False"
| "truthy_string (Some s) = (s \<noteq> [])"

text \<open>\<open>x || d\<close> on an optional number: \<open>undefined\<close> and \<open>0\<close> are falsy.\<close>

fun number_or :: "number option \<Rightarrow> number \<Rightarrow> number" where
  "number_or None d = d"
| "number_or (Some x) d = (if x = 0 then d else x)"

text \<open>\<open>if (confirmation.value.err)\<close>: \<open>null\<close> and the empty string are falsy, every object is
  truthy.\<close>

fun truthy_err :: "transaction_error option \<Rightarrow> bool" where
  "truthy_err None = False"
| "truthy_err (Some (ErrString s)) = (s \<noteq> [])"
| "truthy_err (Some (ErrObject obj)) = True"

text \<open>The coercion of a template literal \<open>`${e}`\<close>: a string is itself, \<open>null\<close> is \<open>null\<close>, and a
  plain object is rendered by \<open>Object.prototype.toString\<close>.\<close>

fun err_to_string :: "transaction_error option \<Rightarrow> string" where
  "err_to_string None = ''null''"
| "err_to_string (Some (ErrString s)) = s"
| "err_to_string (Some (ErrObject obj)) = ''[object Object]''"

definition LAMPORTS_PER_SOL :: number where
  "LAMPORTS_PER_SOL = 1000000000"

subsection \<open>\<open>sendTransaction\<close>\<close>

definition sendTransaction :: "env \<Rightarrow> transaction \<Rightarrow> string io" where
  "sendTransaction env tx =
     io_bind (call ConnGetLatestBlockhash (conn_getLatestBlockhash env)) (\<lambda>bh.
     io_bind (call (ConnSendTransaction tx \<lparr>skipPreflight = True, maxRetries = 3\<rparr>)
                (\<lambda>t. conn_sendTransaction env t tx \<lparr>skipPreflight = True, maxRetries = 3\<rparr>)) (\<lambda>sg.
     io_bind (call (ConnConfirmTransaction
                      \<lparr>cf_blockhash = blockhash bh,
                       cf_lastValidBlockHeight = lastValidBlockHeight bh,
                       cf_signature = sg\<rparr> ''processed'')
                (\<lambda>t. conn_confirmTransaction env t
                      \<lparr>cf_blockhash = blockhash bh,
                       cf_lastValidBlockHeight = lastValidBlockHeight bh,
                       cf_signature = sg\<rparr> ''processed'')) (\<lambda>confirmation.
     if truthy_err (err confirmation)
     then io_throw (Error (''Transaction failed: '' @ err_to_string (err confirmation)))
     else io_return sg)))"

subsection \<open>\<open>getOrCreateConfig\<close>\<close>

text \<open>\<open>configResponse.transaction.sign(...)\<close> signs the transaction of the answer in place: the
  answer returned holds the signed transaction.\<close>

definition getOrCreateConfig :: "env \<Rightarrow> config_response io" where
  "getOrCreateConfig env =
     io_bind (call (SdkGetOrCreateConfig (keypair env))
                (\<lambda>t. sdk_getOrCreateConfig env t (keypair env))) (\<lambda>configResponse.
     case cr_transaction configResponse of
       Some tx \<Rightarrow>
         io_bind (sendTransaction env (sign tx [keypair env])) (\<lambda>sg.
         io_return (configResponse\<lparr>cr_transaction := Some (sign tx [keypair env])\<rparr>))
     | None \<Rightarrow> io_return configResponse)"

subsection \<open>String operations of the runtime\<close>

text \<open>\<open>toUpperCase\<close> on the ASCII letters; other characters are left as they are.\<close>

definition to_upper_char :: "char \<Rightarrow> char" where
  "to_upper_char c =
     (let n = (of_char c :: nat) in if 97 \<le> n \<and> n \<le> 122 then char_of (n - 32) else c)"

definition toUpperCase :: "string \<Rightarrow> string" where
  "toUpperCase s = map to_upper_char s"

text \<open>\<open>s.replace(pattern, replacement)\<close> with a string pattern: only the first occurrence of
  the pattern is replaced. (The \<open>$\<close> patterns of a replacement string are not modelled; the
  code replaces by the empty string.)\<close>

fun replace :: "string \<Rightarrow> string \<Rightarrow> string \<Rightarrow> string" where
  "replace [] pat rep = (if pat = [] then rep else [])"
| "replace (c # cs) pat rep =
     (if prefix pat (c # cs) then rep @ drop (length pat) (c # cs)
      else c # replace cs pat rep)"

subsection \<open>\<open>createTokenInfo\<close>\<close>

definition defaultImage :: string where
  "defaultImage =
     ''https://img.freepik.com/premium-vector/white-abstract-vactor-background-design_665257-153.jpg''"

text \<open>\<open>const response = await fetch(url); imageBlob = await response.blob();\<close>\<close>

definition fetchBlob :: "env \<Rightarrow> string \<Rightarrow> blob io" where
  "fetchBlob env url =
     io_bind (call (Fetch url) (\<lambda>t. fetch env t url)) (\<lambda>response. io_lift (body response))"

definition imageFromFileOrDefault :: "env \<Rightarrow> TokenLaunchParams \<Rightarrow> blob io" where
  "imageFromFileOrDefault env params =
     (case imageFile params of
        Some buf \<Rightarrow> io_return (Blob buf ''image/png'')
      | None \<Rightarrow> fetchBlob env defaultImage)"

definition resolveImage :: "env \<Rightarrow> TokenLaunchParams \<Rightarrow> blob io" where
  "resolveImage env params =
     (case imageUrl params of
        Some url \<Rightarrow> if url \<noteq> [] then fetchBlob env url else imageFromFileOrDefault env params
      | None \<Rightarrow> imageFromFileOrDefault env params)"

definition submittedSymbol :: "string \<Rightarrow> string" where
  "submittedSymbol s = replace (toUpperCase s) ''$'' []"

definition tokenInfoRequest :: "TokenLaunchParams \<Rightarrow> blob \<Rightarrow> token_info_request" where
  "tokenInfoRequest params imageBlob =
     \<lparr>rq_image = imageBlob,
      rq_name = name params,
      rq_symbol = submittedSymbol (symbol params),
      rq_description = description params,
      rq_telegram = telegram params,
      rq_twitter = twitter params,
      rq_website = website params\<rparr>"

definition createTokenInfo :: "env \<Rightarrow> TokenLaunchParams \<Rightarrow> token_info io" where
  "createTokenInfo env params =
     io_bind (resolveImage env params) (\<lambda>imageBlob.
     call (SdkCreateTokenInfoAndMetadata (tokenInfoRequest params imageBlob))
       (\<lambda>t. sdk_createTokenInfoAndMetadata env t (tokenInfoRequest params imageBlob)))"

subsection \<open>\<open>setupFeeSharing\<close>\<close>

record fee_share_result =
  fs_configKey :: pubkey
  fs_feeShareWallet :: string

definition wSOL :: string where
  "wSOL = ''So11111111111111111111111111111111111111112''"

definition feeShareRequest ::
  "env \<Rightarrow> number \<Rightarrow> pubkey \<Rightarrow> number \<Rightarrow> pubkey \<Rightarrow> pubkey \<Rightarrow> fee_share_request" where
  "feeShareRequest env creatorBps w shareBps base quote =
     \<lparr>users = [\<lparr>wallet = keypair env, bps = creatorBps\<rparr>, \<lparr>wallet = w, bps = shareBps\<rparr>],
      payer = keypair env,
      baseMint = base,
      quoteMint = quote\<rparr>"

definition setupFeeSharing ::
  "env \<Rightarrow> string \<Rightarrow> number \<Rightarrow> number \<Rightarrow> string \<Rightarrow> fee_share_result io" where
  "setupFeeSharing env twitterHandle creatorBps shareBps mint =
     io_bind (call (SdkGetLaunchWalletForTwitterUsername twitterHandle)
                (\<lambda>t. sdk_getLaunchWalletForTwitterUsername env t twitterHandle)) (\<lambda>found.
     case found of
       None \<Rightarrow> io_throw (Error (''Could not find wallet for @'' @ twitterHandle))
     | Some w \<Rightarrow>
         io_bind (io_lift (newPublicKey env mint)) (\<lambda>base.
         io_bind (io_lift (newPublicKey env wSOL)) (\<lambda>quote.
         io_bind (call (SdkCreateFeeShareConfig (feeShareRequest env creatorBps w shareBps base quote))
                    (\<lambda>t. sdk_createFeeShareConfig env t
                            (feeShareRequest env creatorBps w shareBps base quote))) (\<lambda>feeShareConfig.
         io_bind (case cr_transaction feeShareConfig of
                    Some tx \<Rightarrow> sendTransaction env (sign tx [keypair env])
                  | None \<Rightarrow> io_return []) (\<lambda>sg.
         io_return \<lparr>fs_configKey = cr_configKey feeShareConfig,
                    fs_feeShareWallet = toString w\<rparr>)))))"

subsection \<open>\<open>launchToken\<close>\<close>

text \<open>The arguments \<open>params.creatorFeeBps || 1000\<close> and \<open>params.feeShareBps || 9000\<close>.\<close>

definition launchFeeBps :: "TokenLaunchParams \<Rightarrow> number \<times> number" where
  "launchFeeBps params =
     (number_or (creatorFeeBps params) 1000, number_or (feeShareBps params) 9000)"

text \<open>\<open>(params.initialBuyAmountSol || 0.01) * LAMPORTS_PER_SOL\<close>\<close>

definition launchInitialBuyLamports :: "TokenLaunchParams \<Rightarrow> number" where
  "launchInitialBuyLamports params =
     number_or (initialBuyAmountSol params) (1 / 100) * LAMPORTS_PER_SOL"

text \<open>Step 3: the configuration key and the fee-share wallet the launch goes on with.\<close>

definition launchFeeShare ::
  "env \<Rightarrow> TokenLaunchParams \<Rightarrow> config_response \<Rightarrow> token_info \<Rightarrow> (pubkey \<times> string option) io" where
  "launchFeeShare env params configResponse tokenInfo =
     (case feeShareTwitter params of
        Some handle \<Rightarrow>
          if handle \<noteq> [] then
            io_bind (setupFeeSharing env handle (fst (launchFeeBps params))
                       (snd (launchFeeBps params)) (ti_tokenMint tokenInfo)) (\<lambda>feeShareResult.
            io_return (fs_configKey feeShareResult, Some (fs_feeShareWallet feeShareResult)))
          else io_return (cr_configKey configResponse, None)
      | None \<Rightarrow> io_return (cr_configKey configResponse, None))"

definition launchRequest ::
  "env \<Rightarrow> TokenLaunchParams \<Rightarrow> token_info \<Rightarrow> pubkey \<Rightarrow> pubkey \<Rightarrow> launch_request" where
  "launchRequest env params tokenInfo mintKey finalConfigKey =
     \<lparr>lq_metadataUrl = ti_tokenMetadata tokenInfo,
      lq_tokenMint = mintKey,
      launchWallet = keypair env,
      initialBuyLamports = launchInitialBuyLamports params,
      lq_configKey = finalConfigKey\<rparr>"

text \<open>The \<open>catch\<close> of \<open>launchToken\<close> logs the error and throws it again, so a failure of a step is
  the failure of the launch.\<close>

definition launchToken :: "env \<Rightarrow> TokenLaunchParams \<Rightarrow> LaunchResult io" where
  "launchToken env params =
     io_bind (getOrCreateConfig env) (\<lambda>configResponse.
     io_bind (createTokenInfo env params) (\<lambda>tokenInfo.
     io_bind (launchFeeShare env params configResponse tokenInfo) (\<lambda>(finalConfigKey, shareWallet).
     io_bind (io_lift (newPublicKey env (ti_tokenMint tokenInfo))) (\<lambda>mintKey.
     io_bind (call (SdkCreateLaunchTransaction
                      (launchRequest env params tokenInfo mintKey finalConfigKey))
                (\<lambda>t. sdk_createLaunchTransaction env t
                        (launchRequest env params tokenInfo mintKey finalConfigKey))) (\<lambda>launchTx.
     io_bind (sendTransaction env (sign launchTx [keypair env])) (\<lambda>sg.
     io_return \<lparr>tokenMint = ti_tokenMint tokenInfo,
                signature = sg,
                metadataUrl = ti_tokenMetadata tokenInfo,
                bagsUrl = ''https://bags.fm/'' @ ti_tokenMint tokenInfo,
                configKey = Some (toString finalConfigKey),
                feeShareWallet = shareWallet\<rparr>))))))"

subsection \<open>\<open>getClaimablePositions\<close> and \<open>claimFees\<close>\<close>

definition getClaimablePositions :: "env \<Rightarrow> position list io" where
  "getClaimablePositions env =
     call (SdkGetAllClaimablePositions (keypair env))
       (\<lambda>t. sdk_getAllClaimablePositions env t (keypair env))"

text \<open>The inner loop \<open>for (const tx of claimTxs)\<close>, with the signatures pushed so far.\<close>

fun claimTxsLoop :: "env \<Rightarrow> transaction list \<Rightarrow> string list \<Rightarrow> string list io" where
  "claimTxsLoop env [] signatures = io_return signatures"
| "claimTxsLoop env (tx # txs) signatures =
     io_bind (sendTransaction env (sign tx [keypair env])) (\<lambda>sg.
     claimTxsLoop env txs (signatures @ [sg]))"

text \<open>The outer loop \<open>for (const position of targetPositions)\<close>.\<close>

fun claimPositionsLoop :: "env \<Rightarrow> position list \<Rightarrow> string list \<Rightarrow> string list io" where
  "claimPositionsLoop env [] signatures = io_return signatures"
| "claimPositionsLoop env (p # ps) signatures =
     io_bind (call (SdkGetClaimTransaction (keypair env) p)
                (\<lambda>t. sdk_getClaimTransaction env t (keypair env) p)) (\<lambda>claimTxs.
     io_bind (claimTxsLoop env claimTxs signatures) (\<lambda>signatures'.
     claimPositionsLoop env ps signatures'))"

definition targetPositions :: "string option \<Rightarrow> position list \<Rightarrow> position list" where
  "targetPositions mint positions =
     (if truthy_string mint then filter (\<lambda>p. Some (pos_baseMint p) = mint) positions
      else positions)"

definition claimFees :: "env \<Rightarrow> string option \<Rightarrow> string list io" where
  "claimFees env mint =
     io_bind (getClaimablePositions env) (\<lambda>positions.
     if length positions = 0 then io_return []
     else claimPositionsLoop env (targetPositions mint positions) [])"

section \<open>Observations on traces\<close>

text \<open>The calls an operation makes when started after the trace \<open>t\<close>.\<close>

definition calls :: "'a io \<Rightarrow> trace \<Rightarrow> trace" where
  "calls m t = drop (length t) (snd (m t))"

text \<open>The transactions handed to \<open>connection.sendTransaction\<close>, in order.\<close>

fun submitted :: "event \<Rightarrow> transaction list" where
  "submitted (ConnSendTransaction tx opts) = [tx]"
| "submitted ev = []"

definition submissions :: "trace \<Rightarrow> transaction list" where
  "submissions t = concat (map submitted t)"

text \<open>The URLs passed to \<open>fetch\<close>, in order.\<close>

fun fetched :: "event \<Rightarrow> string list" where
  "fetched (Fetch url) = [url]"
| "fetched ev = []"

definition fetches :: "trace \<Rightarrow> string list" where
  "fetches t = concat (map fetched t)"

text \<open>The requests passed to \<open>sdk.config.createFeeShareConfig\<close>, in order.\<close>

fun feeShareRequested :: "event \<Rightarrow> fee_share_request list" where
  "feeShareRequested (SdkCreateFeeShareConfig rq) = [rq]"
| "feeShareRequested ev = []"

definition feeShareRequests :: "trace \<Rightarrow> fee_share_request list" where
  "feeShareRequests t = concat (map feeShareRequested t)"

text \<open>\<open>onlyFor P active evs\<close>: in the calls \<open>evs\<close>, every claim-transaction request is for a
  position that satisfies \<open>P\<close>, and every transaction is submitted after such a request (or
  with \<open>active\<close> set, when there is none before it): nothing is requested or submitted for
  another position.\<close>

fun onlyFor :: "(position \<Rightarrow> bool) \<Rightarrow> bool \<Rightarrow> trace \<Rightarrow> bool" where
  "onlyFor P active [] = True"
| "onlyFor P active (SdkGetClaimTransaction k p # evs) = (P p \<and> onlyFor P True evs)"
| "onlyFor P active (ConnSendTransaction tx opts # evs) = (active \<and> onlyFor P active evs)"
| "onlyFor P active (ev # evs) = onlyFor P active evs"

section \<open>The symbol in the words of the specification\<close>

text \<open>The symbol as the specification words it: uppercased, every leading \<open>$\<close> stripped.\<close>

definition leadingDollarsStripped :: "string \<Rightarrow> string" where
  "leadingDollarsStripped s = dropWhile (\<lambda>c. c = CHR ''$'') (toUpperCase s)"

section \<open>Environments and inputs of the concrete runs\<close>

text \<open>The transaction that creates the launch configuration of a wallet.\<close>

definition tx0 :: transaction where
  "tx0 = \<lparr>message = ''create-config'', signers = []\<rparr>"

text \<open>A protocol in which everything succeeds: the launch configuration of a wallet has to be
  created at the first request only, \<open>alice\<close> has a registered wallet, and every transaction is
  confirmed without error.\<close>

definition env0 :: env where
  "env0 =
     \<lparr>keypair = PublicKey ''Creator'',
      newPublicKey = (\<lambda>s. if s = [] then Inl (Error ''Invalid public key input'')
                          else Inr (PublicKey s)),
      sdk_getOrCreateConfig = (\<lambda>t k.
         Inr \<lparr>cr_transaction = (if SdkGetOrCreateConfig k \<in> set t then None else Some tx0),
              cr_configKey = PublicKey ''Config''\<rparr>),
      fetch = (\<lambda>t url. Inr \<lparr>status = 200, body = Inr (Blob [1, 2, 3] ''image/jpeg'')\<rparr>),
      sdk_createTokenInfoAndMetadata = (\<lambda>t rq.
         Inr \<lparr>ti_tokenMint = ''Mint'', ti_tokenMetadata = ''ipfs://meta''\<rparr>),
      sdk_getLaunchWalletForTwitterUsername = (\<lambda>t h.
         Inr (if h = ''alice'' then Some (PublicKey ''Alice'') else None)),
      sdk_createFeeShareConfig = (\<lambda>t rq.
         Inr \<lparr>cr_transaction = None, cr_configKey = PublicKey ''FeeConfig''\<rparr>),
      sdk_createLaunchTransaction = (\<lambda>t rq. Inr \<lparr>message = ''launch'', signers = []\<rparr>),
      conn_getLatestBlockhash = (\<lambda>t. Inr \<lparr>blockhash = ''hash'', lastValidBlockHeight = 100\<rparr>),
      conn_sendTransaction = (\<lambda>t tx opts. Inr (''sig:'' @ message tx)),
      conn_confirmTransaction = (\<lambda>t rq c. Inr \<lparr>err = None\<rparr>),
      sdk_getAllClaimablePositions = (\<lambda>t k. Inr []),
      sdk_getClaimTransaction = (\<lambda>t k p. Inr [])\<rparr>"

text \<open>The three calls of a submission in \<open>env0\<close>.\<close>

definition submission :: "transaction \<Rightarrow> trace" where
  "submission tx =
     [ConnGetLatestBlockhash,
      ConnSendTransaction tx \<lparr>skipPreflight = True, maxRetries = 3\<rparr>,
      ConnConfirmTransaction
        \<lparr>cf_blockhash = ''hash'', cf_lastValidBlockHeight = 100,
         cf_signature = ''sig:'' @ message tx\<rparr> ''processed'']"

text \<open>The launch of the specification's end-to-end scenario: no image, no fee sharing.\<close>

definition params0 :: TokenLaunchParams where
  "params0 =
     \<lparr>name = ''Test'', symbol = ''$test'', description = ''d'',
      imageUrl = None, imageFile = None,
      twitter = None, telegram = None, website = None,
      initialBuyAmountSol = Some (1 / 100),
      feeShareTwitter = None, creatorFeeBps = None, feeShareBps = None\<rparr>"

text \<open>The token identity \<open>env0\<close> publishes.\<close>

definition token_info0 :: token_info where
  "token_info0 = \<lparr>ti_tokenMint = ''Mint'', ti_tokenMetadata = ''ipfs://meta''\<rparr>"

text \<open>The answer of \<open>env0\<close> to the first request for the launch configuration, and the
  results and traces of the first and the second \<open>getOrCreateConfig\<close>.\<close>

definition config_answer :: config_response where
  "config_answer = \<lparr>cr_transaction = Some tx0, cr_configKey = PublicKey ''Config''\<rparr>"

definition config_created :: config_response where
  "config_created =
     \<lparr>cr_transaction = Some (sign tx0 [PublicKey ''Creator'']),
      cr_configKey = PublicKey ''Config''\<rparr>"

definition config_reused :: config_response where
  "config_reused = \<lparr>cr_transaction = None, cr_configKey = PublicKey ''Config''\<rparr>"

definition trace_created :: trace where
  "trace_created =
     [SdkGetOrCreateConfig (PublicKey ''Creator''), ConnGetLatestBlockhash,
      ConnSendTransaction (sign tx0 [PublicKey ''Creator''])
        \<lparr>skipPreflight = True, maxRetries = 3\<rparr>,
      ConnConfirmTransaction
        \<lparr>cf_blockhash = ''hash'', cf_lastValidBlockHeight = 100,
         cf_signature = ''sig:create-config''\<rparr> ''processed'']"

definition trace_reused :: trace where
  "trace_reused = trace_created @ [SdkGetOrCreateConfig (PublicKey ''Creator'')]"

text \<open>A rejected transaction: the confirmation reports an instruction error, as the RPC
  client delivers it (an object).\<close>

definition env_rejected :: env where
  "env_rejected =
     env0\<lparr>conn_confirmTransaction := (\<lambda>t rq c.
            Inr \<lparr>err = Some (ErrObject [(''InstructionError'', ''[0, { Custom: 1 }]'')])\<rparr>)\<rparr>"

text \<open>A protocol that answers the fee-share configuration request with a transaction to
  submit.\<close>

definition tx_fee :: transaction where
  "tx_fee = \<lparr>message = ''fee-config'', signers = []\<rparr>"

definition env_fee_tx :: env where
  "env_fee_tx =
     env0\<lparr>sdk_createFeeShareConfig := (\<lambda>t rq.
            Inr \<lparr>cr_transaction = Some tx_fee, cr_configKey = PublicKey ''FeeConfig''\<rparr>)\<rparr>"

text \<open>An image server that answers every request with status 404 and an error page.\<close>

definition env_not_found :: env where
  "env_not_found =
     env0\<lparr>fetch := (\<lambda>t url. Inr \<lparr>status = 404, body = Inr (Blob [78, 111] ''text/html'')\<rparr>)\<rparr>"

text \<open>A network on which every \<open>fetch\<close> fails.\<close>

definition env_offline :: env where
  "env_offline = env0\<lparr>fetch := (\<lambda>t url. Inl (Error ''fetch failed''))\<rparr>"

text \<open>A launch with a remote image.\<close>

definition params_url :: TokenLaunchParams where
  "params_url = params0\<lparr>imageUrl := Some ''https://e.io/a.png''\<rparr>"

text \<open>Launches with an image: a remote URL and a local buffer, and a local buffer only.\<close>

definition params_url_and_file :: TokenLaunchParams where
  "params_url_and_file = params0\<lparr>imageUrl := Some ''https://e.io/a.png'', imageFile := Some [7]\<rparr>"

definition params_file :: TokenLaunchParams where
  "params_file = params0\<lparr>imageFile := Some [7]\<rparr>"

text \<open>A launch with fee sharing and no share supplied.\<close>

definition params_default_split :: TokenLaunchParams where
  "params_default_split = params0\<lparr>feeShareTwitter := Some ''alice''\<rparr>"

text \<open>Launches with fee sharing: only the creator share supplied, and both shares supplied.\<close>

definition params_one_absent :: TokenLaunchParams where
  "params_one_absent = params0\<lparr>feeShareTwitter := Some ''alice'', creatorFeeBps := Some 2000\<rparr>"

definition params_both :: TokenLaunchParams where
  "params_both =
     params0\<lparr>feeShareTwitter := Some ''alice'', creatorFeeBps := Some 2000,
             feeShareBps := Some 8000\<rparr>"

text \<open>A launch with fee sharing where every optional number is supplied as \<open>0\<close>.\<close>

definition params_zero :: TokenLaunchParams where
  "params_zero =
     params0\<lparr>feeShareTwitter := Some ''alice'', creatorFeeBps := Some 0, feeShareBps := Some 0,
             initialBuyAmountSol := Some 0\<rparr>"

text \<open>A wallet with three claimable positions, of the mints \<open>MintA\<close>, \<open>MintB\<close> and \<open>MintA\<close>
  again; the first needs three claim transactions, the others one each.\<close>

definition pos_a :: position where
  "pos_a = \<lparr>pos_baseMint = ''MintA'', virtualPoolClaimableAmount = 5,
            dammPoolClaimableAmount = 0\<rparr>"

definition pos_b :: position where
  "pos_b = \<lparr>pos_baseMint = ''MintB'', virtualPoolClaimableAmount = 0,
            dammPoolClaimableAmount = 7\<rparr>"

definition pos_c :: position where
  "pos_c = \<lparr>pos_baseMint = ''MintA'', virtualPoolClaimableAmount = 1,
            dammPoolClaimableAmount = 1\<rparr>"

text \<open>The claim transactions the protocol answers with, named by their message.\<close>

definition claim_tx :: "string \<Rightarrow> transaction" where
  "claim_tx m = \<lparr>message = m, signers = []\<rparr>"

definition claim_txs_of :: "position \<Rightarrow> transaction list" where
  "claim_txs_of p =
     (if p = pos_a then [claim_tx ''a1'', claim_tx ''a2'', claim_tx ''a3'']
      else if p = pos_b then [claim_tx ''b1'']
      else [claim_tx ''c1''])"

text \<open>A claim transaction signed by the caller, as \<open>claimFees\<close> submits it.\<close>

definition signed_claim :: "string \<Rightarrow> transaction" where
  "signed_claim m = sign (claim_tx m) [PublicKey ''Creator'']"

definition env_claims :: env where
  "env_claims =
     env0\<lparr>sdk_getAllClaimablePositions := (\<lambda>t k. Inr [pos_a, pos_b, pos_c]),
          sdk_getClaimTransaction := (\<lambda>t k p. Inr (claim_txs_of p))\<rparr>"

text \<open>The same wallet, when the second claim transaction of the first position is rejected
  on chain.\<close>

definition env_claim_fails :: env where
  "env_claim_fails =
     env_claims\<lparr>conn_confirmTransaction := (\<lambda>t rq c.
        Inr \<lparr>err = (if cf_signature rq = ''sig:a2'' then Some (ErrString ''AccountInUse'')
                     else None)\<rparr>)\<rparr>"

text \<open>A launch with fee sharing and only the partner share supplied.\<close>

definition params_share_only :: TokenLaunchParams where
  "params_share_only = params0\<lparr>feeShareTwitter := Some ''alice'', feeShareBps := Some 3000\<rparr>"

text \<open>The fee-share configuration request of a launch for \<open>alice\<close> in \<open>env0\<close>, and the trace
  of such a launch when the token is published.\<close>

definition fee_request0 :: "number \<Rightarrow> number \<Rightarrow> fee_share_request" where
  "fee_request0 c s =
     \<lparr>users = [\<lparr>wallet = PublicKey ''Creator'', bps = c\<rparr>,
               \<lparr>wallet = PublicKey ''Alice'', bps = s\<rparr>],
      payer = PublicKey ''Creator'', baseMint = PublicKey ''Mint'',
      quoteMint = PublicKey wSOL\<rparr>"

definition trace_published :: trace where
  "trace_published =
     trace_created @
     [Fetch defaultImage,
      SdkCreateTokenInfoAndMetadata
        \<lparr>rq_image = Blob [1, 2, 3] ''image/jpeg'', rq_name = ''Test'',
         rq_symbol = ''TEST'', rq_description = ''d'', rq_telegram = None,
         rq_twitter = None, rq_website = None\<rparr>]"

section \<open>Basic facts\<close>

lemmas io_defs = io_bind_def call_def io_return_def io_throw_def io_lift_def

lemma submissions_Nil [simp]: "submissions [] = []"
  by (simp add: submissions_def)

lemma submissions_Cons [simp]: "submissions (ev # t) = submitted ev @ submissions t"
  by (simp add: submissions_def)

lemma submissions_append [simp]: "submissions (a @ b) = submissions a @ submissions b"
  by (simp add: submissions_def)

lemma fetches_Nil [simp]: "fetches [] = []"
  by (simp add: fetches_def)

lemma fetches_Cons [simp]: "fetches (ev # t) = fetched ev @ fetches t"
  by (simp add: fetches_def)

lemma fetches_append [simp]: "fetches (a @ b) = fetches a @ fetches b"
  by (simp add: fetches_def)

lemma calls_extend: "snd (m t) = t @ evs \<Longrightarrow> calls m t = evs"
  by (simp add: calls_def)

section \<open>Facts about the operations\<close>

subsection \<open>\<open>sendTransaction\<close>\<close>

lemma sendTransaction_submissions:
  "submissions (snd (sendTransaction env tx t)) =
     submissions t @ (case conn_getLatestBlockhash env t of Inl e \<Rightarrow> [] | Inr bh \<Rightarrow> [tx])"
  by (simp add: sendTransaction_def io_defs split: sum.splits)

lemma sendTransaction_ok_submissions:
  assumes "sendTransaction env tx t = (Inr sg, t')"
  shows "submissions t' = submissions t @ [tx]"
proof -
  from assms have "conn_getLatestBlockhash env t \<noteq> Inl e" for e
    by (auto simp: sendTransaction_def io_defs split: sum.splits)
  then obtain bh where "conn_getLatestBlockhash env t = Inr bh"
    by (cases "conn_getLatestBlockhash env t") auto
  with sendTransaction_submissions [of env tx t] assms show ?thesis by simp
qed

lemma sendTransaction_extends:
  assumes "sendTransaction env tx t = (r, t')"
  shows "\<exists>evs. t' = t @ evs"
  using assms by (auto simp: sendTransaction_def io_defs split: sum.splits if_splits)

lemma sendTransaction_outcome:
  assumes "conn_getLatestBlockhash env t = Inr bh"
    and "conn_sendTransaction env (t @ [ConnGetLatestBlockhash]) tx
           \<lparr>skipPreflight = True, maxRetries = 3\<rparr> = Inr sg"
    and "conn_confirmTransaction env
           (t @ [ConnGetLatestBlockhash,
                 ConnSendTransaction tx \<lparr>skipPreflight = True, maxRetries = 3\<rparr>])
           \<lparr>cf_blockhash = blockhash bh, cf_lastValidBlockHeight = lastValidBlockHeight bh,
            cf_signature = sg\<rparr> ''processed'' = Inr confirmation"
  shows "sendTransaction env tx t =
           ((if truthy_err (err confirmation)
             then Inl (Error (''Transaction failed: '' @ err_to_string (err confirmation)))
             else Inr sg),
            t @ [ConnGetLatestBlockhash,
                 ConnSendTransaction tx \<lparr>skipPreflight = True, maxRetries = 3\<rparr>,
                 ConnConfirmTransaction
                   \<lparr>cf_blockhash = blockhash bh,
                    cf_lastValidBlockHeight = lastValidBlockHeight bh,
                    cf_signature = sg\<rparr> ''processed''])"
  using assms by (simp add: sendTransaction_def io_defs)

subsection \<open>Which fields of the parameters each step reads\<close>

lemma resolveImage_fields:
  "imageUrl p = imageUrl q \<Longrightarrow> imageFile p = imageFile q \<Longrightarrow>
   resolveImage env p = resolveImage env q"
  by (simp add: resolveImage_def imageFromFileOrDefault_def split: option.splits)

lemma createTokenInfo_fields:
  assumes "imageUrl p = imageUrl q" "imageFile p = imageFile q" "name p = name q"
    "symbol p = symbol q" "description p = description q" "telegram p = telegram q"
    "twitter p = twitter q" "website p = website q"
  shows "createTokenInfo env p = createTokenInfo env q"
proof -
  have "tokenInfoRequest p = tokenInfoRequest q"
    using assms by (simp add: tokenInfoRequest_def fun_eq_iff)
  with resolveImage_fields [of p q env] assms show ?thesis
    by (simp add: createTokenInfo_def)
qed

lemma launchFeeShare_fields:
  "feeShareTwitter p = feeShareTwitter q \<Longrightarrow> launchFeeBps p = launchFeeBps q \<Longrightarrow>
   launchFeeShare env p = launchFeeShare env q"
  by (simp add: launchFeeShare_def fun_eq_iff split: option.splits)

lemma launchToken_fields:
  assumes "createTokenInfo env p = createTokenInfo env q"
    and "launchFeeShare env p = launchFeeShare env q"
    and "launchInitialBuyLamports p = launchInitialBuyLamports q"
  shows "launchToken env p = launchToken env q"
proof -
  have "launchRequest env p = launchRequest env q"
    using assms(3) by (simp add: launchRequest_def fun_eq_iff)
  with assms(1,2) show ?thesis by (simp add: launchToken_def)
qed

lemma launchFeeShare_setup:
  "feeShareTwitter params = Some h \<Longrightarrow> h \<noteq> [] \<Longrightarrow>
   launchFeeShare env params cfg ti =
     io_bind (setupFeeSharing env h (fst (launchFeeBps params)) (snd (launchFeeBps params))
                (ti_tokenMint ti))
       (\<lambda>r. io_return (fs_configKey r, Some (fs_feeShareWallet r)))"
  by (simp add: launchFeeShare_def)

subsection \<open>Which collaborators each operation calls\<close>

lemma sendTransaction_env:
  assumes "conn_getLatestBlockhash env = conn_getLatestBlockhash env'"
    and "conn_sendTransaction env = conn_sendTransaction env'"
    and "conn_confirmTransaction env = conn_confirmTransaction env'"
  shows "sendTransaction env = sendTransaction env'"
  by (intro ext) (simp add: sendTransaction_def assms)

lemma getOrCreateConfig_env:
  assumes "keypair env = keypair env'"
    and "sdk_getOrCreateConfig env = sdk_getOrCreateConfig env'"
    and "sendTransaction env = sendTransaction env'"
  shows "getOrCreateConfig env = getOrCreateConfig env'"
  by (intro ext) (simp add: getOrCreateConfig_def assms cong: option.case_cong)

subsection \<open>The image of the token\<close>

lemma fetchBlob_run:
  "fetchBlob env url t =
     ((case fetch env t url of Inl e \<Rightarrow> Inl e | Inr response \<Rightarrow> body response),
      t @ [Fetch url])"
  by (simp add: fetchBlob_def io_defs split: sum.splits)

lemma resolveImage_url:
  "imageUrl params = Some url \<Longrightarrow> url \<noteq> [] \<Longrightarrow> resolveImage env params = fetchBlob env url"
  by (simp add: resolveImage_def)

lemma resolveImage_file:
  "\<not> truthy_string (imageUrl params) \<Longrightarrow> imageFile params = Some buf \<Longrightarrow>
   resolveImage env params = io_return (Blob buf ''image/png'')"
  by (cases "imageUrl params") (simp_all add: resolveImage_def imageFromFileOrDefault_def)

lemma resolveImage_default:
  "\<not> truthy_string (imageUrl params) \<Longrightarrow> imageFile params = None \<Longrightarrow>
   resolveImage env params = fetchBlob env defaultImage"
  by (cases "imageUrl params") (simp_all add: resolveImage_def imageFromFileOrDefault_def)

lemma createTokenInfo_fetching:
  assumes "resolveImage env params = fetchBlob env url"
  shows "createTokenInfo env params t =
     (case fetch env t url of
        Inl e \<Rightarrow> (Inl e, t @ [Fetch url])
      | Inr response \<Rightarrow>
          (case body response of
             Inl e \<Rightarrow> (Inl e, t @ [Fetch url])
           | Inr b \<Rightarrow>
               (sdk_createTokenInfoAndMetadata env (t @ [Fetch url]) (tokenInfoRequest params b),
                t @ [Fetch url, SdkCreateTokenInfoAndMetadata (tokenInfoRequest params b)])))"
  using assms by (simp add: createTokenInfo_def fetchBlob_run io_defs split: sum.splits)

lemma createTokenInfo_file:
  assumes "resolveImage env params = io_return (Blob buf ''image/png'')"
  shows "createTokenInfo env params t =
     (sdk_createTokenInfoAndMetadata env t (tokenInfoRequest params (Blob buf ''image/png'')),
      t @ [SdkCreateTokenInfoAndMetadata (tokenInfoRequest params (Blob buf ''image/png''))])"
  using assms by (simp add: createTokenInfo_def io_defs)

lemma createTokenInfo_fetches:
  assumes "resolveImage env params = fetchBlob env url"
  shows "fetches (calls (createTokenInfo env params) t) = [url]"
  by (simp add: createTokenInfo_fetching [OF assms] calls_def split: sum.splits)

subsection \<open>The symbol submitted\<close>

lemma replace_char_remove1: "replace s [c] [] = remove1 c s"
  by (induction s) auto

lemma to_upper_char_dollar: "to_upper_char c = CHR ''$'' \<longleftrightarrow> c = CHR ''$''"
proof
  assume a: "to_upper_char c = CHR ''$''"
  show "c = CHR ''$''"
  proof (rule ccontr)
    assume n: "c \<noteq> CHR ''$''"
    with a have r: "97 \<le> (of_char c :: nat)" "(of_char c :: nat) \<le> 122"
      and e: "char_of (of_char c - 32 :: nat) = CHR ''$''"
      by (auto simp: to_upper_char_def Let_def split: if_splits)
    from e have "(of_char (char_of (of_char c - 32 :: nat)) :: nat) = of_char (CHR ''$'')"
      by simp
    then have "(of_char c - 32 :: nat) mod 256 = 36" by (simp add: of_char_of)
    with r show False by simp
  qed
next
  assume "c = CHR ''$''"
  then show "to_upper_char c = CHR ''$''" by (simp add: to_upper_char_def)
qed

lemma toUpperCase_no_dollar: "CHR ''$'' \<notin> set s \<Longrightarrow> CHR ''$'' \<notin> set (toUpperCase s)"
proof -
  have "CHR ''$'' \<in> set (toUpperCase s) \<Longrightarrow> CHR ''$'' \<in> set s"
  proof -
    assume "CHR ''$'' \<in> set (toUpperCase s)"
    then obtain c where c: "c \<in> set s" "to_upper_char c = CHR ''$''"
      by (auto simp: toUpperCase_def)
    then show ?thesis by (simp add: to_upper_char_dollar)
  qed
  then show "CHR ''$'' \<notin> set s \<Longrightarrow> CHR ''$'' \<notin> set (toUpperCase s)" by blast
qed

lemma remove1_absent: "x \<notin> set xs \<Longrightarrow> remove1 x xs = xs"
  by (induction xs) auto

lemma dropWhile_absent: "x \<notin> set xs \<Longrightarrow> dropWhile (\<lambda>c. c = x) xs = xs"
  by (cases xs) auto

lemma submittedSymbol_agrees:
  assumes "CHR ''$'' \<notin> set (tl s)"
  shows "submittedSymbol s = leadingDollarsStripped s"
proof (cases s)
  case Nil
  then show ?thesis
    by (simp add: submittedSymbol_def leadingDollarsStripped_def toUpperCase_def)
next
  case (Cons c cs)
  with assms have cs: "CHR ''$'' \<notin> set (toUpperCase cs)"
    by (simp add: toUpperCase_no_dollar)
  have up: "toUpperCase s = to_upper_char c # toUpperCase cs"
    using Cons by (simp add: toUpperCase_def)
  show ?thesis
  proof (cases "c = CHR ''$''")
    case True
    then have "to_upper_char c = CHR ''$''" by (simp add: to_upper_char_dollar)
    with up cs show ?thesis
      by (simp add: submittedSymbol_def leadingDollarsStripped_def replace_char_remove1
          dropWhile_absent)
  next
    case False
    then have "to_upper_char c \<noteq> CHR ''$''" by (simp add: to_upper_char_dollar)
    with up cs show ?thesis
      by (simp add: submittedSymbol_def leadingDollarsStripped_def replace_char_remove1
          remove1_absent)
  qed
qed

lemma submittedSymbol_test: "submittedSymbol ''$test'' = ''TEST''"
  by code_simp

section \<open>Runs in the concrete environments\<close>

subsection \<open>The environment \<open>env0\<close>\<close>

lemma env0_keypair [simp]: "keypair env0 = PublicKey ''Creator''"
  by (simp add: env0_def)

lemma env0_newPublicKey [simp]:
  "newPublicKey env0 s = (if s = [] then Inl (Error ''Invalid public key input'') else Inr (PublicKey s))"
  by (simp add: env0_def)

lemma env0_getOrCreateConfig [simp]:
  "sdk_getOrCreateConfig env0 t k =
     Inr \<lparr>cr_transaction = (if SdkGetOrCreateConfig k \<in> set t then None else Some tx0),
          cr_configKey = PublicKey ''Config''\<rparr>"
  by (simp add: env0_def)

lemma env0_fetch [simp]:
  "fetch env0 t url = Inr \<lparr>status = 200, body = Inr (Blob [1, 2, 3] ''image/jpeg'')\<rparr>"
  by (simp add: env0_def)

lemma env0_createTokenInfoAndMetadata [simp]:
  "sdk_createTokenInfoAndMetadata env0 t rq =
     Inr \<lparr>ti_tokenMint = ''Mint'', ti_tokenMetadata = ''ipfs://meta''\<rparr>"
  by (simp add: env0_def)

lemma env0_getLaunchWallet [simp]:
  "sdk_getLaunchWalletForTwitterUsername env0 t h =
     Inr (if h = ''alice'' then Some (PublicKey ''Alice'') else None)"
  by (simp add: env0_def)

lemma env0_createFeeShareConfig [simp]:
  "sdk_createFeeShareConfig env0 t rq =
     Inr \<lparr>cr_transaction = None, cr_configKey = PublicKey ''FeeConfig''\<rparr>"
  by (simp add: env0_def)

lemma env0_createLaunchTransaction [simp]:
  "sdk_createLaunchTransaction env0 t rq = Inr \<lparr>message = ''launch'', signers = []\<rparr>"
  by (simp add: env0_def)

lemma env0_getLatestBlockhash [simp]:
  "conn_getLatestBlockhash env0 t = Inr \<lparr>blockhash = ''hash'', lastValidBlockHeight = 100\<rparr>"
  by (simp add: env0_def)

lemma env0_sendTransaction [simp]:
  "conn_sendTransaction env0 t tx opts = Inr (''sig:'' @ message tx)"
  by (simp add: env0_def)

lemma env0_confirmTransaction [simp]:
  "conn_confirmTransaction env0 t rq c = Inr \<lparr>err = None\<rparr>"
  by (simp add: env0_def)

lemma env0_getAllClaimablePositions [simp]: "sdk_getAllClaimablePositions env0 t k = Inr []"
  by (simp add: env0_def)

lemma env0_getClaimTransaction [simp]: "sdk_getClaimTransaction env0 t k p = Inr []"
  by (simp add: env0_def)

lemma sendTransaction_env0:
  "sendTransaction env0 tx t =
     (Inr (''sig:'' @ message tx),
      t @ [ConnGetLatestBlockhash,
           ConnSendTransaction tx \<lparr>skipPreflight = True, maxRetries = 3\<rparr>,
           ConnConfirmTransaction
             \<lparr>cf_blockhash = ''hash'', cf_lastValidBlockHeight = 100,
              cf_signature = ''sig:'' @ message tx\<rparr> ''processed''])"
  by (simp add: sendTransaction_def io_defs)

lemma getOrCreateConfig_env0_first:
  "getOrCreateConfig env0 [] =
    (Inr \<lparr>cr_transaction = Some (sign tx0 [PublicKey ''Creator'']),
          cr_configKey = PublicKey ''Config''\<rparr>,
     [SdkGetOrCreateConfig (PublicKey ''Creator''), ConnGetLatestBlockhash,
      ConnSendTransaction (sign tx0 [PublicKey ''Creator''])
        \<lparr>skipPreflight = True, maxRetries = 3\<rparr>,
      ConnConfirmTransaction
        \<lparr>cf_blockhash = ''hash'', cf_lastValidBlockHeight = 100,
         cf_signature = ''sig:create-config''\<rparr> ''processed''])"
  by (simp add: getOrCreateConfig_def sendTransaction_env0 io_defs)
     (simp add: sign_def tx0_def)

lemma getOrCreateConfig_env0_again:
  "SdkGetOrCreateConfig (PublicKey ''Creator'') \<in> set t \<Longrightarrow>
   getOrCreateConfig env0 t =
    (Inr \<lparr>cr_transaction = None, cr_configKey = PublicKey ''Config''\<rparr>,
     t @ [SdkGetOrCreateConfig (PublicKey ''Creator'')])"
  by (simp add: getOrCreateConfig_def io_defs)

lemma createTokenInfo_env0:
  "createTokenInfo env0 params0 t =
     (Inr \<lparr>ti_tokenMint = ''Mint'', ti_tokenMetadata = ''ipfs://meta''\<rparr>,
      t @ [Fetch defaultImage,
           SdkCreateTokenInfoAndMetadata
             \<lparr>rq_image = Blob [1, 2, 3] ''image/jpeg'', rq_name = ''Test'',
              rq_symbol = ''TEST'', rq_description = ''d'', rq_telegram = None,
              rq_twitter = None, rq_website = None\<rparr>])"
  by (simp add: createTokenInfo_def resolveImage_def imageFromFileOrDefault_def fetchBlob_def
      tokenInfoRequest_def io_defs params0_def submittedSymbol_test)

lemma createTokenInfo_env0_any:
  assumes "imageUrl p = None" "imageFile p = None" "name p = ''Test''" "symbol p = ''$test''"
    "description p = ''d''" "telegram p = None" "twitter p = None" "website p = None"
  shows "createTokenInfo env0 p = createTokenInfo env0 params0"
  by (rule createTokenInfo_fields) (simp_all add: assms params0_def)

lemma setupFeeSharing_env0:
  "setupFeeSharing env0 ''alice'' c s ''Mint'' t =
     (Inr \<lparr>fs_configKey = PublicKey ''FeeConfig'', fs_feeShareWallet = ''Alice''\<rparr>,
      t @ [SdkGetLaunchWalletForTwitterUsername ''alice'',
           SdkCreateFeeShareConfig
             \<lparr>users = [\<lparr>wallet = PublicKey ''Creator'', bps = c\<rparr>,
                       \<lparr>wallet = PublicKey ''Alice'', bps = s\<rparr>],
              payer = PublicKey ''Creator'', baseMint = PublicKey ''Mint'',
              quoteMint = PublicKey wSOL\<rparr>])"
  by (simp add: setupFeeSharing_def feeShareRequest_def io_defs)
     (simp add: wSOL_def)

lemma launchToken_env0_fee_share:
  assumes info: "createTokenInfo env0 p = createTokenInfo env0 params0"
    and handle: "feeShareTwitter p = Some ''alice''"
  shows "launchToken env0 p [] =
   (Inr \<lparr>tokenMint = ''Mint'', signature = ''sig:launch'',
         metadataUrl = ''ipfs://meta'', bagsUrl = ''https://bags.fm/Mint'',
         configKey = Some ''FeeConfig'', feeShareWallet = Some ''Alice''\<rparr>,
    [SdkGetOrCreateConfig (PublicKey ''Creator''), ConnGetLatestBlockhash,
     ConnSendTransaction (sign tx0 [PublicKey ''Creator''])
       \<lparr>skipPreflight = True, maxRetries = 3\<rparr>,
     ConnConfirmTransaction
       \<lparr>cf_blockhash = ''hash'', cf_lastValidBlockHeight = 100,
        cf_signature = ''sig:create-config''\<rparr> ''processed'',
     Fetch defaultImage,
     SdkCreateTokenInfoAndMetadata
       \<lparr>rq_image = Blob [1, 2, 3] ''image/jpeg'', rq_name = ''Test'',
        rq_symbol = ''TEST'', rq_description = ''d'', rq_telegram = None,
        rq_twitter = None, rq_website = None\<rparr>,
     SdkGetLaunchWalletForTwitterUsername ''alice'',
     SdkCreateFeeShareConfig
       \<lparr>users = [\<lparr>wallet = PublicKey ''Creator'', bps = fst (launchFeeBps p)\<rparr>,
                 \<lparr>wallet = PublicKey ''Alice'', bps = snd (launchFeeBps p)\<rparr>],
        payer = PublicKey ''Creator'', baseMint = PublicKey ''Mint'',
        quoteMint = PublicKey wSOL\<rparr>,
     SdkCreateLaunchTransaction
       \<lparr>lq_metadataUrl = ''ipfs://meta'', lq_tokenMint = PublicKey ''Mint'',
        launchWallet = PublicKey ''Creator'',
        initialBuyLamports = launchInitialBuyLamports p,
        lq_configKey = PublicKey ''FeeConfig''\<rparr>,
     ConnGetLatestBlockhash,
     ConnSendTransaction (sign \<lparr>message = ''launch'', signers = []\<rparr> [PublicKey ''Creator''])
       \<lparr>skipPreflight = True, maxRetries = 3\<rparr>,
     ConnConfirmTransaction
       \<lparr>cf_blockhash = ''hash'', cf_lastValidBlockHeight = 100,
        cf_signature = ''sig:launch''\<rparr> ''processed''])"
  by (simp add: launchToken_def io_defs getOrCreateConfig_env0_first info
        createTokenInfo_env0 launchFeeShare_def handle setupFeeSharing_env0 launchRequest_def
        sendTransaction_env0 sign_def)

subsection \<open>Its variants\<close>

lemma env_rejected_sel [simp]:
  "conn_getLatestBlockhash env_rejected = conn_getLatestBlockhash env0"
  "conn_sendTransaction env_rejected = conn_sendTransaction env0"
  "conn_confirmTransaction env_rejected t rq c =
     Inr \<lparr>err = Some (ErrObject [(''InstructionError'', ''[0, { Custom: 1 }]'')])\<rparr>"
  by (simp_all add: env_rejected_def)

lemma env_fee_tx_sel [simp]:
  "keypair env_fee_tx = keypair env0"
  "newPublicKey env_fee_tx = newPublicKey env0"
  "sdk_getLaunchWalletForTwitterUsername env_fee_tx = sdk_getLaunchWalletForTwitterUsername env0"
  "conn_getLatestBlockhash env_fee_tx = conn_getLatestBlockhash env0"
  "conn_sendTransaction env_fee_tx = conn_sendTransaction env0"
  "conn_confirmTransaction env_fee_tx = conn_confirmTransaction env0"
  "sdk_createFeeShareConfig env_fee_tx t rq =
     Inr \<lparr>cr_transaction = Some tx_fee, cr_configKey = PublicKey ''FeeConfig''\<rparr>"
  by (simp_all add: env_fee_tx_def)

lemma sendTransaction_env_fee_tx:
  "sendTransaction env_fee_tx tx t =
     (Inr (''sig:'' @ message tx),
      t @ [ConnGetLatestBlockhash,
           ConnSendTransaction tx \<lparr>skipPreflight = True, maxRetries = 3\<rparr>,
           ConnConfirmTransaction
             \<lparr>cf_blockhash = ''hash'', cf_lastValidBlockHeight = 100,
              cf_signature = ''sig:'' @ message tx\<rparr> ''processed''])"
  by (simp add: sendTransaction_def io_defs)

lemma env_offline_sel [simp]:
  "keypair env_offline = keypair env0"
  "sdk_getOrCreateConfig env_offline = sdk_getOrCreateConfig env0"
  "conn_getLatestBlockhash env_offline = conn_getLatestBlockhash env0"
  "conn_sendTransaction env_offline = conn_sendTransaction env0"
  "conn_confirmTransaction env_offline = conn_confirmTransaction env0"
  "fetch env_offline t url = Inl (Error ''fetch failed'')"
  by (simp_all add: env_offline_def)

lemma env_not_found_sel [simp]:
  "keypair env_not_found = keypair env0"
  "newPublicKey env_not_found = newPublicKey env0"
  "sdk_getOrCreateConfig env_not_found = sdk_getOrCreateConfig env0"
  "sdk_createTokenInfoAndMetadata env_not_found = sdk_createTokenInfoAndMetadata env0"
  "sdk_createLaunchTransaction env_not_found = sdk_createLaunchTransaction env0"
  "conn_getLatestBlockhash env_not_found = conn_getLatestBlockhash env0"
  "conn_sendTransaction env_not_found = conn_sendTransaction env0"
  "conn_confirmTransaction env_not_found = conn_confirmTransaction env0"
  "fetch env_not_found t url = Inr \<lparr>status = 404, body = Inr (Blob [78, 111] ''text/html'')\<rparr>"
  by (simp_all add: env_not_found_def)

lemma getOrCreateConfig_env_offline: "getOrCreateConfig env_offline = getOrCreateConfig env0"
  by (intro getOrCreateConfig_env sendTransaction_env) simp_all

lemma sendTransaction_env_not_found: "sendTransaction env_not_found = sendTransaction env0"
  by (intro sendTransaction_env) simp_all

lemma getOrCreateConfig_env_not_found: "getOrCreateConfig env_not_found = getOrCreateConfig env0"
  by (intro getOrCreateConfig_env sendTransaction_env) simp_all

lemma createTokenInfo_env_not_found:
  "createTokenInfo env_not_found params_url t =
     (Inr \<lparr>ti_tokenMint = ''Mint'', ti_tokenMetadata = ''ipfs://meta''\<rparr>,
      t @ [Fetch ''https://e.io/a.png'',
           SdkCreateTokenInfoAndMetadata
             \<lparr>rq_image = Blob [78, 111] ''text/html'', rq_name = ''Test'',
              rq_symbol = ''TEST'', rq_description = ''d'', rq_telegram = None,
              rq_twitter = None, rq_website = None\<rparr>])"
proof -
  have "resolveImage env_not_found params_url = fetchBlob env_not_found ''https://e.io/a.png''"
    by (rule resolveImage_url) (simp_all add: params_url_def)
  from createTokenInfo_fetching [OF this] show ?thesis
    by (simp add: tokenInfoRequest_def params_url_def params0_def submittedSymbol_test)
qed

lemma env_claims_sel [simp]:
  "keypair env_claims = keypair env0"
  "conn_getLatestBlockhash env_claims = conn_getLatestBlockhash env0"
  "conn_sendTransaction env_claims = conn_sendTransaction env0"
  "conn_confirmTransaction env_claims = conn_confirmTransaction env0"
  "sdk_getAllClaimablePositions env_claims t k = Inr [pos_a, pos_b, pos_c]"
  "sdk_getClaimTransaction env_claims t k p = Inr (claim_txs_of p)"
  by (simp_all add: env_claims_def)

lemma env_claim_fails_sel [simp]:
  "keypair env_claim_fails = keypair env0"
  "conn_getLatestBlockhash env_claim_fails = conn_getLatestBlockhash env0"
  "conn_sendTransaction env_claim_fails = conn_sendTransaction env0"
  "conn_confirmTransaction env_claim_fails t rq c =
     Inr \<lparr>err = (if cf_signature rq = ''sig:a2'' then Some (ErrString ''AccountInUse'')
                  else None)\<rparr>"
  "sdk_getAllClaimablePositions env_claim_fails t k = Inr [pos_a, pos_b, pos_c]"
  "sdk_getClaimTransaction env_claim_fails t k p = Inr (claim_txs_of p)"
  by (simp_all add: env_claim_fails_def)

lemma claim_txs_of_simps [simp]:
  "claim_txs_of pos_a = [claim_tx ''a1'', claim_tx ''a2'', claim_tx ''a3'']"
  "claim_txs_of pos_b = [claim_tx ''b1'']"
  "claim_txs_of pos_c = [claim_tx ''c1'']"
  by (simp_all add: claim_txs_of_def pos_a_def pos_b_def pos_c_def)

lemma pos_baseMint_simps [simp]:
  "pos_baseMint pos_a = ''MintA''" "pos_baseMint pos_b = ''MintB''"
  "pos_baseMint pos_c = ''MintA''"
  by (simp_all add: pos_a_def pos_b_def pos_c_def)

lemma pos_distinct [simp]: "pos_a \<noteq> pos_b" "pos_c \<noteq> pos_b" "pos_b \<noteq> pos_a" "pos_b \<noteq> pos_c"
  by (simp_all add: pos_a_def pos_b_def pos_c_def)

lemma sign_claim [simp]: "sign (claim_tx m) [PublicKey ''Creator''] = signed_claim m"
  by (simp add: signed_claim_def)

lemma message_signed_claim [simp]: "message (signed_claim m) = m"
  by (simp add: signed_claim_def sign_def claim_tx_def)

lemma sendTransaction_env_claims:
  "sendTransaction env_claims tx t = (Inr (''sig:'' @ message tx), t @ submission tx)"
proof -
  have "sendTransaction env_claims = sendTransaction env0"
    by (intro sendTransaction_env) simp_all
  then show ?thesis by (simp add: sendTransaction_env0 submission_def)
qed

lemma sendTransaction_env_claim_fails:
  "sendTransaction env_claim_fails tx t =
     ((if message tx = ''a2'' then Inl (Error ''Transaction failed: AccountInUse'')
       else Inr (''sig:'' @ message tx)),
      t @ submission tx)"
  by (simp add: sendTransaction_def io_defs submission_def)

lemma claimFees_env_claims_filtered:
  "claimFees env_claims (Some ''MintA'') [] =
     (Inr [''sig:a1'', ''sig:a2'', ''sig:a3'', ''sig:c1''],
      [SdkGetAllClaimablePositions (PublicKey ''Creator''),
       SdkGetClaimTransaction (PublicKey ''Creator'') pos_a]
      @ submission (signed_claim ''a1'') @ submission (signed_claim ''a2'')
      @ submission (signed_claim ''a3'')
      @ [SdkGetClaimTransaction (PublicKey ''Creator'') pos_c]
      @ submission (signed_claim ''c1''))"
  by (simp add: claimFees_def getClaimablePositions_def targetPositions_def io_defs
      sendTransaction_env_claims)

section \<open>The fee split of a launch\<close>

text \<open>Claim C1 fails on the code: with \<open>feeShareTwitter\<close> present, \<open>creatorFeeBps = 2000\<close> and
  \<open>feeShareBps\<close> absent, \<open>launchToken\<close> passes the pair \<open>(2000, 9000)\<close> to the fee-share setup
  (the fee-share configuration request of the launch carries it): the missing share is the
  fixed default \<open>9000\<close>, not \<open>10000 - 2000\<close>, and the pair sums to \<open>11000\<close>.\<close>

theorem launchToken_fee_split_counterexample:
  "feeShareTwitter params_one_absent = Some ''alice''
   \<and> creatorFeeBps params_one_absent = Some 2000
   \<and> feeShareBps params_one_absent = None
   \<and> launchFeeBps params_one_absent = (2000, 9000)
   \<and> (2000 :: number) + 9000 \<noteq> 10000
   \<and> (9000 :: number) \<noteq> 10000 - 2000
   \<and> SdkCreateFeeShareConfig
       \<lparr>users = [\<lparr>wallet = PublicKey ''Creator'', bps = 2000\<rparr>,
                 \<lparr>wallet = PublicKey ''Alice'', bps = 9000\<rparr>],
        payer = PublicKey ''Creator'', baseMint = PublicKey ''Mint'',
        quoteMint = PublicKey wSOL\<rparr>
      \<in> set (snd (launchToken env0 params_one_absent []))"
proof -
  have bps: "launchFeeBps params_one_absent = (2000, 9000)"
    by (simp add: launchFeeBps_def params_one_absent_def params0_def)
  have info: "createTokenInfo env0 params_one_absent = createTokenInfo env0 params0"
    by (rule createTokenInfo_env0_any) (simp_all add: params_one_absent_def params0_def)
  have handle: "feeShareTwitter params_one_absent = Some ''alice''"
    by (simp add: params_one_absent_def)
  show ?thesis
    by (simp add: launchToken_env0_fee_share [OF info handle] bps)
       (simp add: params_one_absent_def params0_def)
qed

subsection \<open>The fee-share configuration requests of a launch\<close>

lemma feeShareRequests_Nil [simp]: "feeShareRequests [] = []"
  by (simp add: feeShareRequests_def)

lemma feeShareRequests_Cons [simp]:
  "feeShareRequests (ev # t) = feeShareRequested ev @ feeShareRequests t"
  by (simp add: feeShareRequests_def)

lemma feeShareRequests_append [simp]:
  "feeShareRequests (a @ b) = feeShareRequests a @ feeShareRequests b"
  by (simp add: feeShareRequests_def)

lemma sendTransaction_feeShareRequests [simp]:
  "feeShareRequests (snd (sendTransaction env tx t)) = feeShareRequests t"
  by (simp add: sendTransaction_def io_defs split: sum.splits)

lemma sendTransaction_feeShareRequests_run:
  "sendTransaction env tx t = (r, t') \<Longrightarrow> feeShareRequests t' = feeShareRequests t"
  using sendTransaction_feeShareRequests [of env tx t] by simp

lemma getOrCreateConfig_feeShareRequests:
  "getOrCreateConfig env t = (r, t') \<Longrightarrow> feeShareRequests t' = feeShareRequests t"
  by (auto simp: getOrCreateConfig_def io_defs
      split: sum.splits option.splits prod.splits dest: sendTransaction_feeShareRequests_run)

lemma createTokenInfo_feeShareRequests:
  "createTokenInfo env params t = (r, t') \<Longrightarrow> feeShareRequests t' = feeShareRequests t"
  by (auto simp: createTokenInfo_def resolveImage_def imageFromFileOrDefault_def fetchBlob_def
      io_defs split: sum.splits option.splits prod.splits if_splits)

lemma setupFeeSharing_feeShareRequests:
  assumes "setupFeeSharing env h c s mint t = (r, t')"
  shows "feeShareRequests t' = feeShareRequests t
       \<or> (\<exists>w base quote. sdk_getLaunchWalletForTwitterUsername env t h = Inr (Some w)
             \<and> newPublicKey env mint = Inr base \<and> newPublicKey env wSOL = Inr quote
             \<and> feeShareRequests t' = feeShareRequests t @ [feeShareRequest env c w s base quote])"
  using assms
  by (auto simp: setupFeeSharing_def io_defs
      split: sum.splits option.splits prod.splits dest: sendTransaction_feeShareRequests_run)

lemma setupFeeSharing_feeShareRequests_found:
  assumes "setupFeeSharing env h c s mint t = (r, t')"
    and "sdk_getLaunchWalletForTwitterUsername env t h = Inr (Some w)"
    and "newPublicKey env mint = Inr base" and "newPublicKey env wSOL = Inr quote"
  shows "feeShareRequests t' = feeShareRequests t @ [feeShareRequest env c w s base quote]"
  using assms
  by (auto simp: setupFeeSharing_def io_defs
      split: sum.splits option.splits prod.splits dest: sendTransaction_feeShareRequests_run)

text \<open>The steps of \<open>launchToken\<close> after the fee-share step.\<close>

lemma launchToken_steps:
  assumes "getOrCreateConfig env t = (Inr cfg, t1)"
    and "createTokenInfo env params t1 = (Inr ti, t2)"
    and "launchFeeShare env params cfg ti t2 = (r3, t3)"
  shows "feeShareRequests (snd (launchToken env params t)) = feeShareRequests t3"
  using assms
  by (cases r3)
     (auto simp: launchToken_def io_defs split: sum.splits prod.splits
        dest: sendTransaction_feeShareRequests_run)

lemma launchToken_config_fails:
  "getOrCreateConfig env t = (Inl e, t1) \<Longrightarrow> launchToken env params t = (Inl e, t1)"
  by (simp add: launchToken_def io_bind_def)

lemma launchFeeShare_none:
  "\<not> truthy_string (feeShareTwitter params) \<Longrightarrow>
   launchFeeShare env params cfg ti t = (Inr (cr_configKey cfg, None), t)"
  by (cases "feeShareTwitter params") (simp_all add: launchFeeShare_def io_defs)

lemma launchFeeShare_feeShareRequests:
  assumes "launchFeeShare env params cfg ti t = (r, t')"
  shows "feeShareRequests t' = feeShareRequests t
       \<or> (\<exists>h w base quote. feeShareTwitter params = Some h \<and> h \<noteq> []
             \<and> sdk_getLaunchWalletForTwitterUsername env t h = Inr (Some w)
             \<and> newPublicKey env (ti_tokenMint ti) = Inr base \<and> newPublicKey env wSOL = Inr quote
             \<and> feeShareRequests t' = feeShareRequests t @
                 [feeShareRequest env (fst (launchFeeBps params)) w (snd (launchFeeBps params))
                    base quote])"
proof (cases "truthy_string (feeShareTwitter params)")
  case False
  with assms launchFeeShare_none [of params env cfg ti t] show ?thesis by simp
next
  case True
  then obtain h where h: "feeShareTwitter params = Some h" "h \<noteq> []"
    by (cases "feeShareTwitter params") auto
  obtain r1 t1 where s: "setupFeeSharing env h (fst (launchFeeBps params))
      (snd (launchFeeBps params)) (ti_tokenMint ti) t = (r1, t1)"
    by (cases "setupFeeSharing env h (fst (launchFeeBps params))
      (snd (launchFeeBps params)) (ti_tokenMint ti) t")
  with assms h have "t' = t1"
    by (cases r1) (simp_all add: launchFeeShare_setup io_defs)
  with setupFeeSharing_feeShareRequests [OF s] h show ?thesis by auto
qed

lemma launchToken_feeShareRequests:
  "feeShareRequests (snd (launchToken env params t)) = feeShareRequests t
   \<or> (\<exists>cfg t1 ti t2 h w base quote.
         getOrCreateConfig env t = (Inr cfg, t1) \<and> createTokenInfo env params t1 = (Inr ti, t2)
         \<and> feeShareTwitter params = Some h \<and> h \<noteq> []
         \<and> sdk_getLaunchWalletForTwitterUsername env t2 h = Inr (Some w)
         \<and> newPublicKey env (ti_tokenMint ti) = Inr base \<and> newPublicKey env wSOL = Inr quote
         \<and> feeShareRequests (snd (launchToken env params t)) = feeShareRequests t @
             [feeShareRequest env (fst (launchFeeBps params)) w (snd (launchFeeBps params))
                base quote])"
proof -
  obtain r1 t1 where c: "getOrCreateConfig env t = (r1, t1)"
    by (cases "getOrCreateConfig env t")
  note c1 = getOrCreateConfig_feeShareRequests [OF c]
  show ?thesis
  proof (cases r1)
    case (Inl e)
    with c c1 show ?thesis by (simp add: launchToken_config_fails)
  next
    case (Inr cfg)
    obtain r2 t2 where i: "createTokenInfo env params t1 = (r2, t2)"
      by (cases "createTokenInfo env params t1")
    note i1 = createTokenInfo_feeShareRequests [OF i]
    show ?thesis
    proof (cases r2)
      case (Inl e)
      with c Inr i have "launchToken env params t = (Inl e, t2)"
        by (simp add: launchToken_def io_bind_def)
      with c1 i1 show ?thesis by simp
    next
      case ti: (Inr ti)
      obtain r3 t3 where f: "launchFeeShare env params cfg ti t2 = (r3, t3)"
        by (cases "launchFeeShare env params cfg ti t2")
      from c Inr i ti f
      have l: "feeShareRequests (snd (launchToken env params t)) = feeShareRequests t3"
        by (simp add: launchToken_steps)
      from launchFeeShare_feeShareRequests [OF f] show ?thesis
      proof
        assume "feeShareRequests t3 = feeShareRequests t2"
        with l c1 i1 show ?thesis by simp
      next
        assume "\<exists>h w base quote. feeShareTwitter params = Some h \<and> h \<noteq> []
             \<and> sdk_getLaunchWalletForTwitterUsername env t2 h = Inr (Some w)
             \<and> newPublicKey env (ti_tokenMint ti) = Inr base \<and> newPublicKey env wSOL = Inr quote
             \<and> feeShareRequests t3 = feeShareRequests t2 @
                 [feeShareRequest env (fst (launchFeeBps params)) w (snd (launchFeeBps params))
                    base quote]"
        with l c1 i1 c Inr i ti show ?thesis by auto
      qed
    qed
  qed
qed

lemma launchToken_feeShareRequests_found:
  assumes "getOrCreateConfig env t = (Inr cfg, t1)"
    and "createTokenInfo env params t1 = (Inr ti, t2)"
    and "feeShareTwitter params = Some h" and "h \<noteq> []"
    and "sdk_getLaunchWalletForTwitterUsername env t2 h = Inr (Some w)"
    and "newPublicKey env (ti_tokenMint ti) = Inr base" and "newPublicKey env wSOL = Inr quote"
  shows "feeShareRequests (snd (launchToken env params t)) = feeShareRequests t @
           [feeShareRequest env (fst (launchFeeBps params)) w (snd (launchFeeBps params))
              base quote]"
proof -
  obtain r3 t3 where f: "launchFeeShare env params cfg ti t2 = (r3, t3)"
    by (cases "launchFeeShare env params cfg ti t2")
  obtain r4 t4 where s: "setupFeeSharing env h (fst (launchFeeBps params))
      (snd (launchFeeBps params)) (ti_tokenMint ti) t2 = (r4, t4)"
    by (cases "setupFeeSharing env h (fst (launchFeeBps params))
      (snd (launchFeeBps params)) (ti_tokenMint ti) t2")
  with f assms(3,4) have "t3 = t4"
    by (cases r4) (simp_all add: launchFeeShare_setup io_defs)
  with setupFeeSharing_feeShareRequests_found [OF s assms(5,6,7)]
  have "feeShareRequests t3 = feeShareRequests t2 @
      [feeShareRequest env (fst (launchFeeBps params)) w (snd (launchFeeBps params)) base quote]"
    by simp
  with launchToken_steps [OF assms(1,2) f]
    getOrCreateConfig_feeShareRequests [OF assms(1)]
    createTokenInfo_feeShareRequests [OF assms(2)]
  show ?thesis by simp
qed

text \<open>Claim C1, amended. \<open>launchToken\<close> issues at most one fee-share configuration request, and
  only when \<open>feeShareTwitter\<close> is a non-empty handle; the two shares of the request are the
  pair \<open>launchFeeBps params\<close>, that is \<open>creatorFeeBps || 1000\<close> for the caller and
  \<open>feeShareBps || 9000\<close> for the partner. When the configuration step and the token step
  succeed, the wallet of the handle is found and the two mints are keys, the request is issued
  with exactly these entries. Each default is fixed and independent of the other share: when
  both shares are absent the pair is \<open>(1000, 9000)\<close>, which sums to \<open>10000\<close>; when only the
  creator share \<open>c\<close> is supplied (not \<open>0\<close>) the pair is \<open>(c, 9000)\<close>; when only the partner share
  \<open>s\<close> is supplied (not \<open>0\<close>) the pair is \<open>(1000, s)\<close>; when both are supplied (not \<open>0\<close>) the pair
  is \<open>(c, s)\<close>, unchanged. No case compares the sum of the pair with \<open>10000\<close>.\<close>

theorem launchToken_fee_split:
  "(\<exists>rs. feeShareRequests (snd (launchToken env params t)) = feeShareRequests t @ rs
         \<and> length rs \<le> 1
         \<and> list_all (\<lambda>rq. map bps (users rq)
                             = [fst (launchFeeBps params), snd (launchFeeBps params)]) rs
         \<and> (truthy_string (feeShareTwitter params) \<or> rs = []))
   \<and> (getOrCreateConfig env t = (Inr cfg, t1) \<and> createTokenInfo env params t1 = (Inr ti, t2)
        \<and> feeShareTwitter params = Some h \<and> h \<noteq> []
        \<and> sdk_getLaunchWalletForTwitterUsername env t2 h = Inr (Some w)
        \<and> newPublicKey env (ti_tokenMint ti) = Inr base \<and> newPublicKey env wSOL = Inr quote
      \<longrightarrow> feeShareRequests (snd (launchToken env params t)) = feeShareRequests t @
            [\<lparr>users = [\<lparr>wallet = keypair env, bps = fst (launchFeeBps params)\<rparr>,
                       \<lparr>wallet = w, bps = snd (launchFeeBps params)\<rparr>],
              payer = keypair env, baseMint = base, quoteMint = quote\<rparr>])
   \<and> (creatorFeeBps params = None \<and> feeShareBps params = None \<longrightarrow>
        launchFeeBps params = (1000, 9000)
        \<and> fst (launchFeeBps params) + snd (launchFeeBps params) = 10000)
   \<and> (creatorFeeBps params = Some c \<and> c \<noteq> 0 \<and> feeShareBps params = None \<longrightarrow>
        launchFeeBps params = (c, 9000))
   \<and> (creatorFeeBps params = None \<and> feeShareBps params = Some s \<and> s \<noteq> 0 \<longrightarrow>
        launchFeeBps params = (1000, s))
   \<and> (creatorFeeBps params = Some c \<and> c \<noteq> 0 \<and> feeShareBps params = Some s \<and> s \<noteq> 0 \<longrightarrow>
        launchFeeBps params = (c, s))"
proof (intro conjI impI)
  let ?a = "fst (launchFeeBps params)" and ?b = "snd (launchFeeBps params)"
  from launchToken_feeShareRequests [of env params t]
  show "\<exists>rs. feeShareRequests (snd (launchToken env params t)) = feeShareRequests t @ rs
         \<and> length rs \<le> 1
         \<and> list_all (\<lambda>rq. map bps (users rq) = [?a, ?b]) rs
         \<and> (truthy_string (feeShareTwitter params) \<or> rs = [])"
  proof
    assume "feeShareRequests (snd (launchToken env params t)) = feeShareRequests t"
    then show ?thesis by (intro exI [of _ "[]"]) simp
  next
    assume "\<exists>cfg t1 ti t2 h w base quote.
         getOrCreateConfig env t = (Inr cfg, t1) \<and> createTokenInfo env params t1 = (Inr ti, t2)
         \<and> feeShareTwitter params = Some h \<and> h \<noteq> []
         \<and> sdk_getLaunchWalletForTwitterUsername env t2 h = Inr (Some w)
         \<and> newPublicKey env (ti_tokenMint ti) = Inr base \<and> newPublicKey env wSOL = Inr quote
         \<and> feeShareRequests (snd (launchToken env params t)) = feeShareRequests t @
             [feeShareRequest env ?a w ?b base quote]"
    then obtain h w base quote where "feeShareTwitter params = Some h" "h \<noteq> []"
      "feeShareRequests (snd (launchToken env params t)) = feeShareRequests t @
             [feeShareRequest env ?a w ?b base quote]"
      by blast
    then show ?thesis
      by (intro exI [of _ "[feeShareRequest env ?a w ?b base quote]"])
         (simp add: feeShareRequest_def)
  qed
next
  assume a: "getOrCreateConfig env t = (Inr cfg, t1) \<and> createTokenInfo env params t1 = (Inr ti, t2)
        \<and> feeShareTwitter params = Some h \<and> h \<noteq> []
        \<and> sdk_getLaunchWalletForTwitterUsername env t2 h = Inr (Some w)
        \<and> newPublicKey env (ti_tokenMint ti) = Inr base \<and> newPublicKey env wSOL = Inr quote"
  have "feeShareRequests (snd (launchToken env params t)) = feeShareRequests t @
      [feeShareRequest env (fst (launchFeeBps params)) w (snd (launchFeeBps params)) base quote]"
    by (rule launchToken_feeShareRequests_found [where cfg = cfg and ?t1.0 = t1 and ti = ti
          and ?t2.0 = t2 and h = h]) (simp_all add: a)
  then show "feeShareRequests (snd (launchToken env params t)) = feeShareRequests t @
            [\<lparr>users = [\<lparr>wallet = keypair env, bps = fst (launchFeeBps params)\<rparr>,
                       \<lparr>wallet = w, bps = snd (launchFeeBps params)\<rparr>],
              payer = keypair env, baseMint = base, quoteMint = quote\<rparr>]"
    by (simp add: feeShareRequest_def)
next
  assume a: "creatorFeeBps params = None \<and> feeShareBps params = None"
  then show "launchFeeBps params = (1000, 9000)" by (simp add: launchFeeBps_def)
  from a show "fst (launchFeeBps params) + snd (launchFeeBps params) = 10000"
    by (simp add: launchFeeBps_def)
next
  assume "creatorFeeBps params = Some c \<and> c \<noteq> 0 \<and> feeShareBps params = None"
  then show "launchFeeBps params = (c, 9000)" by (simp add: launchFeeBps_def)
next
  assume "creatorFeeBps params = None \<and> feeShareBps params = Some s \<and> s \<noteq> 0"
  then show "launchFeeBps params = (1000, s)" by (simp add: launchFeeBps_def)
next
  assume "creatorFeeBps params = Some c \<and> c \<noteq> 0 \<and> feeShareBps params = Some s \<and> s \<noteq> 0"
  then show "launchFeeBps params = (c, s)" by (simp add: launchFeeBps_def)
qed

lemma env0_published:
  assumes "createTokenInfo env0 p = createTokenInfo env0 params0"
  shows "getOrCreateConfig env0 [] = (Inr config_created, trace_created)
       \<and> createTokenInfo env0 p trace_created = (Inr token_info0, trace_published)
       \<and> sdk_getLaunchWalletForTwitterUsername env0 trace_published ''alice''
           = Inr (Some (PublicKey ''Alice''))
       \<and> newPublicKey env0 (ti_tokenMint token_info0) = Inr (PublicKey ''Mint'')
       \<and> newPublicKey env0 wSOL = Inr (PublicKey wSOL)"
  by (simp add: assms getOrCreateConfig_env0_first config_created_def trace_created_def
      createTokenInfo_env0 token_info0_def trace_published_def)
     (simp add: wSOL_def)

text \<open>Claim C1, amended, at concrete inputs: the launches for \<open>alice\<close> in \<open>env0\<close> with no share
  supplied (the request carries \<open>1000\<close> and \<open>9000\<close>), with only the creator share \<open>2000\<close>
  (\<open>2000\<close> and \<open>9000\<close>), with only the partner share \<open>3000\<close> (\<open>1000\<close> and \<open>3000\<close>) and with both
  \<open>2000\<close> and \<open>8000\<close> supplied; and the launch without fee sharing, which issues no request.\<close>

theorem launchToken_fee_split_witness:
  "feeShareRequests (snd (launchToken env0 params_default_split [])) = [fee_request0 1000 9000]
   \<and> feeShareRequests (snd (launchToken env0 params_one_absent [])) = [fee_request0 2000 9000]
   \<and> feeShareRequests (snd (launchToken env0 params_share_only [])) = [fee_request0 1000 3000]
   \<and> feeShareRequests (snd (launchToken env0 params_both [])) = [fee_request0 2000 8000]
   \<and> feeShareRequests (snd (launchToken env0 params0 [])) = []"
proof -
  have i1: "createTokenInfo env0 params_default_split = createTokenInfo env0 params0"
    by (rule createTokenInfo_env0_any) (simp_all add: params_default_split_def params0_def)
  have i2: "createTokenInfo env0 params_one_absent = createTokenInfo env0 params0"
    by (rule createTokenInfo_env0_any) (simp_all add: params_one_absent_def params0_def)
  have i3: "createTokenInfo env0 params_share_only = createTokenInfo env0 params0"
    by (rule createTokenInfo_env0_any) (simp_all add: params_share_only_def params0_def)
  have i4: "createTokenInfo env0 params_both = createTokenInfo env0 params0"
    by (rule createTokenInfo_env0_any) (simp_all add: params_both_def params0_def)
  have h1: "feeShareTwitter params_default_split = Some ''alice'' \<and> ''alice'' \<noteq> []
      \<and> creatorFeeBps params_default_split = None \<and> feeShareBps params_default_split = None"
    by (simp add: params_default_split_def params0_def)
  have h2: "feeShareTwitter params_one_absent = Some ''alice'' \<and> ''alice'' \<noteq> []
      \<and> creatorFeeBps params_one_absent = Some 2000 \<and> (2000::number) \<noteq> 0
      \<and> feeShareBps params_one_absent = None"
    by (simp add: params_one_absent_def params0_def)
  have h3: "feeShareTwitter params_share_only = Some ''alice'' \<and> ''alice'' \<noteq> []
      \<and> creatorFeeBps params_share_only = None
      \<and> feeShareBps params_share_only = Some 3000 \<and> (3000::number) \<noteq> 0"
    by (simp add: params_share_only_def params0_def)
  have h4: "feeShareTwitter params_both = Some ''alice'' \<and> ''alice'' \<noteq> []
      \<and> creatorFeeBps params_both = Some 2000 \<and> (2000::number) \<noteq> 0
      \<and> feeShareBps params_both = Some 8000 \<and> (8000::number) \<noteq> 0"
    by (simp add: params_both_def)
  have h0: "\<not> truthy_string (feeShareTwitter params0)"
    by (simp add: params0_def)
  note t1 = launchToken_fee_split
     [where env = env0 and params = params_default_split and t = "[]" and cfg = config_created
        and ?t1.0 = trace_created and ti = token_info0 and ?t2.0 = trace_published
        and h = "''alice''" and w = "PublicKey ''Alice''" and base = "PublicKey ''Mint''"
        and quote = "PublicKey wSOL"]
  from t1 h1 have p1: "launchFeeBps params_default_split = (1000, 9000)" by blast
  from t1 h1 env0_published [OF i1]
  have "feeShareRequests (snd (launchToken env0 params_default_split [])) = feeShareRequests [] @
      [\<lparr>users = [\<lparr>wallet = keypair env0, bps = fst (launchFeeBps params_default_split)\<rparr>,
                 \<lparr>wallet = PublicKey ''Alice'', bps = snd (launchFeeBps params_default_split)\<rparr>],
        payer = keypair env0, baseMint = PublicKey ''Mint'', quoteMint = PublicKey wSOL\<rparr>]"
    by blast
  with p1 have r1: "feeShareRequests (snd (launchToken env0 params_default_split []))
      = [fee_request0 1000 9000]"
    by (simp add: fee_request0_def)
  note t2 = launchToken_fee_split
     [where env = env0 and params = params_one_absent and t = "[]" and cfg = config_created
        and ?t1.0 = trace_created and ti = token_info0 and ?t2.0 = trace_published
        and h = "''alice''" and w = "PublicKey ''Alice''" and base = "PublicKey ''Mint''"
        and quote = "PublicKey wSOL" and c = 2000]
  from t2 h2 have p2: "launchFeeBps params_one_absent = (2000, 9000)" by blast
  from t2 h2 env0_published [OF i2]
  have "feeShareRequests (snd (launchToken env0 params_one_absent [])) = feeShareRequests [] @
      [\<lparr>users = [\<lparr>wallet = keypair env0, bps = fst (launchFeeBps params_one_absent)\<rparr>,
                 \<lparr>wallet = PublicKey ''Alice'', bps = snd (launchFeeBps params_one_absent)\<rparr>],
        payer = keypair env0, baseMint = PublicKey ''Mint'', quoteMint = PublicKey wSOL\<rparr>]"
    by blast
  with p2 have r2: "feeShareRequests (snd (launchToken env0 params_one_absent []))
      = [fee_request0 2000 9000]"
    by (simp add: fee_request0_def)
  note t3 = launchToken_fee_split
     [where env = env0 and params = params_share_only and t = "[]" and cfg = config_created
        and ?t1.0 = trace_created and ti = token_info0 and ?t2.0 = trace_published
        and h = "''alice''" and w = "PublicKey ''Alice''" and base = "PublicKey ''Mint''"
        and quote = "PublicKey wSOL" and s = 3000]
  from t3 h3 have p3: "launchFeeBps params_share_only = (1000, 3000)" by blast
  from t3 h3 env0_published [OF i3]
  have "feeShareRequests (snd (launchToken env0 params_share_only [])) = feeShareRequests [] @
      [\<lparr>users = [\<lparr>wallet = keypair env0, bps = fst (launchFeeBps params_share_only)\<rparr>,
                 \<lparr>wallet = PublicKey ''Alice'', bps = snd (launchFeeBps params_share_only)\<rparr>],
        payer = keypair env0, baseMint = PublicKey ''Mint'', quoteMint = PublicKey wSOL\<rparr>]"
    by blast
  with p3 have r3: "feeShareRequests (snd (launchToken env0 params_share_only []))
      = [fee_request0 1000 3000]"
    by (simp add: fee_request0_def)
  note t4 = launchToken_fee_split
     [where env = env0 and params = params_both and t = "[]" and cfg = config_created
        and ?t1.0 = trace_created and ti = token_info0 and ?t2.0 = trace_published
        and h = "''alice''" and w = "PublicKey ''Alice''" and base = "PublicKey ''Mint''"
        and quote = "PublicKey wSOL" and c = 2000 and s = 8000]
  from t4 h4 have p4: "launchFeeBps params_both = (2000, 8000)" by blast
  from t4 h4 env0_published [OF i4]
  have "feeShareRequests (snd (launchToken env0 params_both [])) = feeShareRequests [] @
      [\<lparr>users = [\<lparr>wallet = keypair env0, bps = fst (launchFeeBps params_both)\<rparr>,
                 \<lparr>wallet = PublicKey ''Alice'', bps = snd (launchFeeBps params_both)\<rparr>],
        payer = keypair env0, baseMint = PublicKey ''Mint'', quoteMint = PublicKey wSOL\<rparr>]"
    by blast
  with p4 have r4: "feeShareRequests (snd (launchToken env0 params_both []))
      = [fee_request0 2000 8000]"
    by (simp add: fee_request0_def)
  from launchToken_fee_split [where env = env0 and params = params0 and t = "[]"] h0
  have r0: "feeShareRequests (snd (launchToken env0 params0 [])) = []"
    by auto
  from r1 r2 r3 r4 r0 show ?thesis by blast
qed

section \<open>The fee-share setup and the split\<close>

lemma setupFeeSharing_lookup_first:
  "take 1 (calls (setupFeeSharing env h c s mint) t) = [SdkGetLaunchWalletForTwitterUsername h]"
  by (auto simp: setupFeeSharing_def calls_def io_defs
      split: sum.splits option.splits prod.splits dest!: sendTransaction_extends)

lemma setupFeeSharing_forwards:
  assumes "sdk_getLaunchWalletForTwitterUsername env t h = Inr (Some w)"
    and "newPublicKey env mint = Inr base" and "newPublicKey env wSOL = Inr quote"
  shows "take 2 (calls (setupFeeSharing env h c s mint) t) =
           [SdkGetLaunchWalletForTwitterUsername h,
            SdkCreateFeeShareConfig
              \<lparr>users = [\<lparr>wallet = keypair env, bps = c\<rparr>, \<lparr>wallet = w, bps = s\<rparr>],
               payer = keypair env, baseMint = base, quoteMint = quote\<rparr>]"
  using assms
  by (auto simp: setupFeeSharing_def feeShareRequest_def calls_def io_defs
      split: sum.splits option.splits prod.splits dest!: sendTransaction_extends)

text \<open>Claim C2 fails on the code: with the explicit pair \<open>(5000, 6000)\<close>, which does not sum to
  \<open>10000\<close>, the setup succeeds after a wallet lookup, a fee-share configuration request carrying
  the pair, and the submission of the transaction the protocol returned; and with the pair
  \<open>(-500, 10500)\<close>, which has a negative value, it succeeds after the lookup and the request.\<close>

theorem setupFeeSharing_invalid_split_counterexample:
  "(5000::number) + 6000 \<noteq> 10000
   \<and> setupFeeSharing env_fee_tx ''alice'' 5000 6000 ''Mint'' [] =
      (Inr \<lparr>fs_configKey = PublicKey ''FeeConfig'', fs_feeShareWallet = ''Alice''\<rparr>,
       [SdkGetLaunchWalletForTwitterUsername ''alice'',
        SdkCreateFeeShareConfig
          \<lparr>users = [\<lparr>wallet = PublicKey ''Creator'', bps = 5000\<rparr>,
                    \<lparr>wallet = PublicKey ''Alice'', bps = 6000\<rparr>],
           payer = PublicKey ''Creator'', baseMint = PublicKey ''Mint'',
           quoteMint = PublicKey wSOL\<rparr>,
        ConnGetLatestBlockhash,
        ConnSendTransaction (sign tx_fee [PublicKey ''Creator''])
          \<lparr>skipPreflight = True, maxRetries = 3\<rparr>,
        ConnConfirmTransaction
          \<lparr>cf_blockhash = ''hash'', cf_lastValidBlockHeight = 100,
           cf_signature = ''sig:fee-config''\<rparr> ''processed''])
   \<and> (- 500 :: number) < 0
   \<and> setupFeeSharing env0 ''alice'' (- 500) 10500 ''Mint'' [] =
      (Inr \<lparr>fs_configKey = PublicKey ''FeeConfig'', fs_feeShareWallet = ''Alice''\<rparr>,
       [SdkGetLaunchWalletForTwitterUsername ''alice'',
        SdkCreateFeeShareConfig
          \<lparr>users = [\<lparr>wallet = PublicKey ''Creator'', bps = - 500\<rparr>,
                    \<lparr>wallet = PublicKey ''Alice'', bps = 10500\<rparr>],
           payer = PublicKey ''Creator'', baseMint = PublicKey ''Mint'',
           quoteMint = PublicKey wSOL\<rparr>])"
proof (intro conjI)
  show "(5000::number) + 6000 \<noteq> 10000" by simp
  show "(- 500 :: number) < 0" by simp
  show "setupFeeSharing env0 ''alice'' (- 500) 10500 ''Mint'' [] =
      (Inr \<lparr>fs_configKey = PublicKey ''FeeConfig'', fs_feeShareWallet = ''Alice''\<rparr>,
       [SdkGetLaunchWalletForTwitterUsername ''alice'',
        SdkCreateFeeShareConfig
          \<lparr>users = [\<lparr>wallet = PublicKey ''Creator'', bps = - 500\<rparr>,
                    \<lparr>wallet = PublicKey ''Alice'', bps = 10500\<rparr>],
           payer = PublicKey ''Creator'', baseMint = PublicKey ''Mint'',
           quoteMint = PublicKey wSOL\<rparr>])"
    by (simp add: setupFeeSharing_env0)
  show "setupFeeSharing env_fee_tx ''alice'' 5000 6000 ''Mint'' [] =
      (Inr \<lparr>fs_configKey = PublicKey ''FeeConfig'', fs_feeShareWallet = ''Alice''\<rparr>,
       [SdkGetLaunchWalletForTwitterUsername ''alice'',
        SdkCreateFeeShareConfig
          \<lparr>users = [\<lparr>wallet = PublicKey ''Creator'', bps = 5000\<rparr>,
                    \<lparr>wallet = PublicKey ''Alice'', bps = 6000\<rparr>],
           payer = PublicKey ''Creator'', baseMint = PublicKey ''Mint'',
           quoteMint = PublicKey wSOL\<rparr>,
        ConnGetLatestBlockhash,
        ConnSendTransaction (sign tx_fee [PublicKey ''Creator''])
          \<lparr>skipPreflight = True, maxRetries = 3\<rparr>,
        ConnConfirmTransaction
          \<lparr>cf_blockhash = ''hash'', cf_lastValidBlockHeight = 100,
           cf_signature = ''sig:fee-config''\<rparr> ''processed''])"
    by (simp add: setupFeeSharing_def feeShareRequest_def io_defs sendTransaction_env_fee_tx)
       (simp add: wSOL_def sign_def tx_fee_def)
qed

lemma setupFeeSharing_run:
  assumes "sdk_getLaunchWalletForTwitterUsername env t h = Inr (Some w)"
    and "newPublicKey env mint = Inr base" and "newPublicKey env wSOL = Inr quote"
    and "sdk_createFeeShareConfig env (t @ [SdkGetLaunchWalletForTwitterUsername h])
           (feeShareRequest env c w s base quote) = Inr answer"
  shows "setupFeeSharing env h c s mint t =
           (case cr_transaction answer of
              None \<Rightarrow>
                (Inr \<lparr>fs_configKey = cr_configKey answer, fs_feeShareWallet = toString w\<rparr>,
                 t @ [SdkGetLaunchWalletForTwitterUsername h,
                      SdkCreateFeeShareConfig (feeShareRequest env c w s base quote)])
            | Some tx \<Rightarrow>
                io_bind (sendTransaction env (sign tx [keypair env]))
                  (\<lambda>sg. io_return
                     \<lparr>fs_configKey = cr_configKey answer, fs_feeShareWallet = toString w\<rparr>)
                  (t @ [SdkGetLaunchWalletForTwitterUsername h,
                        SdkCreateFeeShareConfig (feeShareRequest env c w s base quote)]))"
  using assms by (simp add: setupFeeSharing_def io_defs split: option.splits)

text \<open>Claim C2, amended. \<open>setupFeeSharing\<close> does not validate the pair: whatever the pair, its
  first call is the wallet lookup for the handle, and when the lookup finds a wallet (and the
  mint strings are keys) its second call is the fee-share configuration request with the two
  entries \<open>(caller, creatorBps)\<close> and \<open>(partner, shareBps)\<close>, the pair unchanged; when the
  protocol answers the request with a transaction, the transaction is signed and submitted,
  and when it answers with none, the setup is done.\<close>

theorem setupFeeSharing_no_validation:
  "take 1 (calls (setupFeeSharing env h c s mint) t) = [SdkGetLaunchWalletForTwitterUsername h]
   \<and> (sdk_getLaunchWalletForTwitterUsername env t h = Inr (Some w)
        \<and> newPublicKey env mint = Inr base \<and> newPublicKey env wSOL = Inr quote
      \<longrightarrow> take 2 (calls (setupFeeSharing env h c s mint) t) =
            [SdkGetLaunchWalletForTwitterUsername h,
             SdkCreateFeeShareConfig
               \<lparr>users = [\<lparr>wallet = keypair env, bps = c\<rparr>, \<lparr>wallet = w, bps = s\<rparr>],
                payer = keypair env, baseMint = base, quoteMint = quote\<rparr>]
          \<and> (sdk_createFeeShareConfig env (t @ [SdkGetLaunchWalletForTwitterUsername h])
                 (feeShareRequest env c w s base quote) = Inr answer \<longrightarrow>
               setupFeeSharing env h c s mint t =
                 (case cr_transaction answer of
                    None \<Rightarrow>
                      (Inr \<lparr>fs_configKey = cr_configKey answer,
                            fs_feeShareWallet = toString w\<rparr>,
                       t @ [SdkGetLaunchWalletForTwitterUsername h,
                            SdkCreateFeeShareConfig (feeShareRequest env c w s base quote)])
                  | Some tx \<Rightarrow>
                      io_bind (sendTransaction env (sign tx [keypair env]))
                        (\<lambda>sg. io_return
                           \<lparr>fs_configKey = cr_configKey answer,
                            fs_feeShareWallet = toString w\<rparr>)
                        (t @ [SdkGetLaunchWalletForTwitterUsername h,
                              SdkCreateFeeShareConfig
                                (feeShareRequest env c w s base quote)]))))"
proof (intro conjI impI)
  show "take 1 (calls (setupFeeSharing env h c s mint) t)
      = [SdkGetLaunchWalletForTwitterUsername h]"
    by (rule setupFeeSharing_lookup_first)
next
  assume "sdk_getLaunchWalletForTwitterUsername env t h = Inr (Some w)
      \<and> newPublicKey env mint = Inr base \<and> newPublicKey env wSOL = Inr quote"
  then show "take 2 (calls (setupFeeSharing env h c s mint) t) =
      [SdkGetLaunchWalletForTwitterUsername h,
       SdkCreateFeeShareConfig
         \<lparr>users = [\<lparr>wallet = keypair env, bps = c\<rparr>, \<lparr>wallet = w, bps = s\<rparr>],
          payer = keypair env, baseMint = base, quoteMint = quote\<rparr>]"
    by (simp add: setupFeeSharing_forwards)
next
  assume "sdk_getLaunchWalletForTwitterUsername env t h = Inr (Some w)
      \<and> newPublicKey env mint = Inr base \<and> newPublicKey env wSOL = Inr quote"
    and "sdk_createFeeShareConfig env (t @ [SdkGetLaunchWalletForTwitterUsername h])
           (feeShareRequest env c w s base quote) = Inr answer"
  then show "setupFeeSharing env h c s mint t =
      (case cr_transaction answer of
         None \<Rightarrow>
           (Inr \<lparr>fs_configKey = cr_configKey answer, fs_feeShareWallet = toString w\<rparr>,
            t @ [SdkGetLaunchWalletForTwitterUsername h,
                 SdkCreateFeeShareConfig (feeShareRequest env c w s base quote)])
       | Some tx \<Rightarrow>
           io_bind (sendTransaction env (sign tx [keypair env]))
             (\<lambda>sg. io_return
                \<lparr>fs_configKey = cr_configKey answer, fs_feeShareWallet = toString w\<rparr>)
             (t @ [SdkGetLaunchWalletForTwitterUsername h,
                   SdkCreateFeeShareConfig (feeShareRequest env c w s base quote)]))"
    by (simp add: setupFeeSharing_run)
qed

text \<open>Claim C2, amended, at a concrete input: the pair \<open>(5000, 6000)\<close> in \<open>env0\<close>.\<close>

theorem setupFeeSharing_no_validation_witness:
  "sdk_getLaunchWalletForTwitterUsername env0 [] ''alice'' = Inr (Some (PublicKey ''Alice''))
   \<and> newPublicKey env0 ''Mint'' = Inr (PublicKey ''Mint'')
   \<and> newPublicKey env0 wSOL = Inr (PublicKey wSOL)
   \<and> take 2 (calls (setupFeeSharing env0 ''alice'' 5000 6000 ''Mint'') []) =
       [SdkGetLaunchWalletForTwitterUsername ''alice'',
        SdkCreateFeeShareConfig
          \<lparr>users = [\<lparr>wallet = PublicKey ''Creator'', bps = 5000\<rparr>,
                    \<lparr>wallet = PublicKey ''Alice'', bps = 6000\<rparr>],
           payer = PublicKey ''Creator'', baseMint = PublicKey ''Mint'',
           quoteMint = PublicKey wSOL\<rparr>]
   \<and> setupFeeSharing env0 ''alice'' 5000 6000 ''Mint'' [] =
       (Inr \<lparr>fs_configKey = PublicKey ''FeeConfig'', fs_feeShareWallet = ''Alice''\<rparr>,
        [SdkGetLaunchWalletForTwitterUsername ''alice'',
         SdkCreateFeeShareConfig
           (feeShareRequest env0 5000 (PublicKey ''Alice'') 6000 (PublicKey ''Mint'')
              (PublicKey wSOL))])"
proof -
  have w: "sdk_getLaunchWalletForTwitterUsername env0 [] ''alice'' = Inr (Some (PublicKey ''Alice''))"
    by simp
  have m: "newPublicKey env0 ''Mint'' = Inr (PublicKey ''Mint'')" by simp
  have q: "newPublicKey env0 wSOL = Inr (PublicKey wSOL)" by (simp add: wSOL_def)
  have a: "sdk_createFeeShareConfig env0 ([] @ [SdkGetLaunchWalletForTwitterUsername ''alice''])
             (feeShareRequest env0 5000 (PublicKey ''Alice'') 6000 (PublicKey ''Mint'')
                (PublicKey wSOL))
           = Inr \<lparr>cr_transaction = None, cr_configKey = PublicKey ''FeeConfig''\<rparr>"
    by simp
  note inst = setupFeeSharing_no_validation
         [where env = env0 and h = "''alice''" and c = 5000 and s = 6000 and mint = "''Mint''"
            and t = "[]" and w = "PublicKey ''Alice''" and base = "PublicKey ''Mint''"
            and quote = "PublicKey wSOL"
            and answer = "\<lparr>cr_transaction = None, cr_configKey = PublicKey ''FeeConfig''\<rparr>"]
  from inst w m q
  have 1: "take 2 (calls (setupFeeSharing env0 ''alice'' 5000 6000 ''Mint'') []) =
       [SdkGetLaunchWalletForTwitterUsername ''alice'',
        SdkCreateFeeShareConfig
          \<lparr>users = [\<lparr>wallet = keypair env0, bps = 5000\<rparr>,
                    \<lparr>wallet = PublicKey ''Alice'', bps = 6000\<rparr>],
           payer = keypair env0, baseMint = PublicKey ''Mint'',
           quoteMint = PublicKey wSOL\<rparr>]"
    by blast
  from inst w m q a
  have "setupFeeSharing env0 ''alice'' 5000 6000 ''Mint'' [] =
      (case cr_transaction \<lparr>cr_transaction = None, cr_configKey = PublicKey ''FeeConfig''\<rparr> of
         None \<Rightarrow>
           (Inr \<lparr>fs_configKey =
                   cr_configKey \<lparr>cr_transaction = None, cr_configKey = PublicKey ''FeeConfig''\<rparr>,
                 fs_feeShareWallet = toString (PublicKey ''Alice'')\<rparr>,
            [] @ [SdkGetLaunchWalletForTwitterUsername ''alice'',
                  SdkCreateFeeShareConfig
                    (feeShareRequest env0 5000 (PublicKey ''Alice'') 6000 (PublicKey ''Mint'')
                       (PublicKey wSOL))])
       | Some tx \<Rightarrow>
           io_bind (sendTransaction env0 (sign tx [keypair env0]))
             (\<lambda>sg. io_return
                \<lparr>fs_configKey =
                    cr_configKey \<lparr>cr_transaction = None, cr_configKey = PublicKey ''FeeConfig''\<rparr>,
                 fs_feeShareWallet = toString (PublicKey ''Alice'')\<rparr>)
             ([] @ [SdkGetLaunchWalletForTwitterUsername ''alice'',
                    SdkCreateFeeShareConfig
                      (feeShareRequest env0 5000 (PublicKey ''Alice'') 6000 (PublicKey ''Mint'')
                         (PublicKey wSOL))]))"
    by blast
  then have 2: "setupFeeSharing env0 ''alice'' 5000 6000 ''Mint'' [] =
       (Inr \<lparr>fs_configKey = PublicKey ''FeeConfig'', fs_feeShareWallet = ''Alice''\<rparr>,
        [SdkGetLaunchWalletForTwitterUsername ''alice'',
         SdkCreateFeeShareConfig
           (feeShareRequest env0 5000 (PublicKey ''Alice'') 6000 (PublicKey ''Mint'')
              (PublicKey wSOL))])"
    by simp
  from w m q 1 2 show ?thesis by simp
qed

section \<open>A failed claim transaction\<close>

lemma claimTxsLoop_append:
  "claimTxsLoop env (xs @ ys) sigs t =
     (case claimTxsLoop env xs sigs t of
        (Inl e, t') \<Rightarrow> (Inl e, t')
      | (Inr sigs', t') \<Rightarrow> claimTxsLoop env ys sigs' t')"
proof (induction xs arbitrary: sigs t)
  case Nil
  show ?case by (simp add: io_defs)
next
  case (Cons x xs)
  show ?case
    by (simp add: io_bind_def Cons.IH split: prod.splits sum.splits)
qed

lemma claimPositionsLoop_append:
  "claimPositionsLoop env (ps @ qs) sigs t =
     (case claimPositionsLoop env ps sigs t of
        (Inl e, t') \<Rightarrow> (Inl e, t')
      | (Inr sigs', t') \<Rightarrow> claimPositionsLoop env qs sigs' t')"
proof (induction ps arbitrary: sigs t)
  case Nil
  show ?case by (simp add: io_defs)
next
  case (Cons p ps)
  show ?case
    by (simp add: io_bind_def Cons.IH split: prod.splits sum.splits)
qed

lemma claimTxsLoop_fails:
  assumes "claimTxsLoop env pre sigs t = (Inr sigs', t1)"
    and "sendTransaction env (sign tx [keypair env]) t1 = (Inl e, t2)"
  shows "claimTxsLoop env (pre @ tx # rest) sigs t = (Inl e, t2)"
  using assms by (simp add: claimTxsLoop_append io_bind_def)

lemma claimPositionsLoop_fails:
  assumes "claimPositionsLoop env pre sigs0 t0 = (Inr sigs, t)"
    and "sdk_getClaimTransaction env t (keypair env) p = Inr txs"
    and "claimTxsLoop env txs sigs (t @ [SdkGetClaimTransaction (keypair env) p]) = (Inl e, t2)"
  shows "claimPositionsLoop env (pre @ p # post) sigs0 t0 = (Inl e, t2)"
  using assms by (simp add: claimPositionsLoop_append io_defs)

text \<open>Claim C3 fails on the code: three positions are claimable, and the second claim
  transaction of the first position is rejected. \<open>claimFees\<close> fails with that error and nothing
  else: the signature of the first transaction is not returned, and no claim transaction is
  requested for the second position (nor for the third).\<close>

theorem claimFees_partial_failure_counterexample:
  "claimFees env_claim_fails None [] =
     (Inl (Error ''Transaction failed: AccountInUse''),
      [SdkGetAllClaimablePositions (PublicKey ''Creator''),
       SdkGetClaimTransaction (PublicKey ''Creator'') pos_a]
      @ submission (signed_claim ''a1'') @ submission (signed_claim ''a2''))
   \<and> SdkGetClaimTransaction (PublicKey ''Creator'') pos_b
       \<notin> set (snd (claimFees env_claim_fails None []))"
proof -
  have run: "claimFees env_claim_fails None [] =
     (Inl (Error ''Transaction failed: AccountInUse''),
      [SdkGetAllClaimablePositions (PublicKey ''Creator''),
       SdkGetClaimTransaction (PublicKey ''Creator'') pos_a]
      @ submission (signed_claim ''a1'') @ submission (signed_claim ''a2''))"
    by (simp add: claimFees_def getClaimablePositions_def targetPositions_def io_defs
        sendTransaction_env_claim_fails)
  then show ?thesis by (simp add: submission_def)
qed

text \<open>Claim C3, amended. If submitting one claim transaction of a position fails, \<open>claimFees\<close>
  fails with the triggering error and makes no further call: it attempts neither the
  remaining transactions of that position nor any later position, and the signatures collected
  so far are not returned. Here \<open>pre\<close> are the positions claimed before \<open>p\<close>, \<open>sent\<close> the
  transactions of \<open>p\<close> submitted before \<open>tx\<close>, whose submission fails with \<open>e\<close> at the trace
  \<open>t2\<close>; \<open>rest\<close> and \<open>post\<close> are the transactions and positions never reached.\<close>

theorem claimFees_stops_at_failure:
  "sdk_getAllClaimablePositions env t0 (keypair env) = Inr positions \<and> positions \<noteq> []
   \<and> targetPositions mint positions = pre @ p # post
   \<and> claimPositionsLoop env pre [] (t0 @ [SdkGetAllClaimablePositions (keypair env)])
       = (Inr sigs, t)
   \<and> sdk_getClaimTransaction env t (keypair env) p = Inr (sent @ tx # rest)
   \<and> claimTxsLoop env sent sigs (t @ [SdkGetClaimTransaction (keypair env) p]) = (Inr sigs', t1)
   \<and> sendTransaction env (sign tx [keypair env]) t1 = (Inl e, t2)
   \<longrightarrow> claimFees env mint t0 = (Inl e, t2)"
proof
  assume a: "sdk_getAllClaimablePositions env t0 (keypair env) = Inr positions \<and> positions \<noteq> []
   \<and> targetPositions mint positions = pre @ p # post
   \<and> claimPositionsLoop env pre [] (t0 @ [SdkGetAllClaimablePositions (keypair env)])
       = (Inr sigs, t)
   \<and> sdk_getClaimTransaction env t (keypair env) p = Inr (sent @ tx # rest)
   \<and> claimTxsLoop env sent sigs (t @ [SdkGetClaimTransaction (keypair env) p]) = (Inr sigs', t1)
   \<and> sendTransaction env (sign tx [keypair env]) t1 = (Inl e, t2)"
  then have "claimTxsLoop env (sent @ tx # rest) sigs
      (t @ [SdkGetClaimTransaction (keypair env) p]) = (Inl e, t2)"
    by (simp add: claimTxsLoop_fails)
  with a have "claimPositionsLoop env (pre @ p # post) []
      (t0 @ [SdkGetAllClaimablePositions (keypair env)]) = (Inl e, t2)"
    by (simp add: claimPositionsLoop_fails)
  with a show "claimFees env mint t0 = (Inl e, t2)"
    by (simp add: claimFees_def getClaimablePositions_def io_defs)
qed

text \<open>Claim C3, amended, at a concrete input: the run of the counterexample, where \<open>a1\<close> is
  submitted, \<open>a2\<close> is rejected, and \<open>a3\<close> and the two later positions are never reached.\<close>

theorem claimFees_stops_at_failure_witness:
  "sdk_getAllClaimablePositions env_claim_fails [] (keypair env_claim_fails)
     = Inr [pos_a, pos_b, pos_c]
   \<and> targetPositions None [pos_a, pos_b, pos_c] = [] @ pos_a # [pos_b, pos_c]
   \<and> sdk_getClaimTransaction env_claim_fails
       [SdkGetAllClaimablePositions (PublicKey ''Creator'')] (keypair env_claim_fails) pos_a
     = Inr ([claim_tx ''a1''] @ claim_tx ''a2'' # [claim_tx ''a3''])
   \<and> claimTxsLoop env_claim_fails [claim_tx ''a1''] []
       [SdkGetAllClaimablePositions (PublicKey ''Creator''),
        SdkGetClaimTransaction (PublicKey ''Creator'') pos_a]
     = (Inr [''sig:a1''],
        [SdkGetAllClaimablePositions (PublicKey ''Creator''),
         SdkGetClaimTransaction (PublicKey ''Creator'') pos_a] @ submission (signed_claim ''a1''))
   \<and> sendTransaction env_claim_fails (signed_claim ''a2'')
       ([SdkGetAllClaimablePositions (PublicKey ''Creator''),
         SdkGetClaimTransaction (PublicKey ''Creator'') pos_a] @ submission (signed_claim ''a1''))
     = (Inl (Error ''Transaction failed: AccountInUse''),
        [SdkGetAllClaimablePositions (PublicKey ''Creator''),
         SdkGetClaimTransaction (PublicKey ''Creator'') pos_a]
        @ submission (signed_claim ''a1'') @ submission (signed_claim ''a2''))
   \<and> claimFees env_claim_fails None [] =
       (Inl (Error ''Transaction failed: AccountInUse''),
        [SdkGetAllClaimablePositions (PublicKey ''Creator''),
         SdkGetClaimTransaction (PublicKey ''Creator'') pos_a]
        @ submission (signed_claim ''a1'') @ submission (signed_claim ''a2''))"
proof -
  let ?t = "[SdkGetAllClaimablePositions (PublicKey ''Creator'')]"
  let ?t1 = "[SdkGetAllClaimablePositions (PublicKey ''Creator''),
         SdkGetClaimTransaction (PublicKey ''Creator'') pos_a] @ submission (signed_claim ''a1'')"
  let ?t2 = "[SdkGetAllClaimablePositions (PublicKey ''Creator''),
         SdkGetClaimTransaction (PublicKey ''Creator'') pos_a]
        @ submission (signed_claim ''a1'') @ submission (signed_claim ''a2'')"
  have 1: "sdk_getAllClaimablePositions env_claim_fails [] (keypair env_claim_fails)
     = Inr [pos_a, pos_b, pos_c] \<and> [pos_a, pos_b, pos_c] \<noteq> []"
    by simp
  have 2: "targetPositions None [pos_a, pos_b, pos_c] = [] @ pos_a # [pos_b, pos_c]"
    by (simp add: targetPositions_def)
  have 3: "claimPositionsLoop env_claim_fails []  []
       ([] @ [SdkGetAllClaimablePositions (keypair env_claim_fails)]) = (Inr [], ?t)"
    by (simp add: io_defs)
  have 4: "sdk_getClaimTransaction env_claim_fails ?t (keypair env_claim_fails) pos_a
     = Inr ([claim_tx ''a1''] @ claim_tx ''a2'' # [claim_tx ''a3''])"
    by simp
  have 5: "claimTxsLoop env_claim_fails [claim_tx ''a1''] []
       (?t @ [SdkGetClaimTransaction (keypair env_claim_fails) pos_a]) = (Inr [''sig:a1''], ?t1)"
    by (simp add: io_defs sendTransaction_env_claim_fails)
  have 6: "sendTransaction env_claim_fails (sign (claim_tx ''a2'') [keypair env_claim_fails]) ?t1
     = (Inl (Error ''Transaction failed: AccountInUse''), ?t2)"
    by (simp add: sendTransaction_env_claim_fails)
  from claimFees_stops_at_failure
         [where env = env_claim_fails and ?t0.0 = "[]" and positions = "[pos_a, pos_b, pos_c]"
            and mint = None and pre = "[]" and p = pos_a and post = "[pos_b, pos_c]"
            and sigs = "[]" and t = ?t and sent = "[claim_tx ''a1'']" and tx = "claim_tx ''a2''"
            and rest = "[claim_tx ''a3'']" and sigs' = "[''sig:a1'']" and ?t1.0 = ?t1
            and e = "Error ''Transaction failed: AccountInUse''" and ?t2.0 = ?t2]
    1 2 3 4 5 6
  have 7: "claimFees env_claim_fails None [] =
       (Inl (Error ''Transaction failed: AccountInUse''), ?t2)"
    by blast
  from 1 2 4 5 6 7 show ?thesis by simp
qed

section \<open>A failed image fetch\<close>

lemma launchToken_createTokenInfo_fails:
  assumes "getOrCreateConfig env t0 = (Inr cfg, t)"
    and "createTokenInfo env params t = (Inl e, t')"
  shows "launchToken env params t0 = (Inl e, t')"
  using assms by (simp add: launchToken_def io_bind_def)

text \<open>Claim C4 fails on the code: the image URL answers with status 404 and an error page.
  \<open>createTokenInfo\<close> does not fail: it publishes the metadata with the error page as the image,
  and the launch succeeds.\<close>

theorem createTokenInfo_not_found_counterexample:
  "imageUrl params_url = Some ''https://e.io/a.png''
   \<and> fetch env_not_found trace_created ''https://e.io/a.png''
       = Inr \<lparr>status = 404, body = Inr (Blob [78, 111] ''text/html'')\<rparr>
   \<and> createTokenInfo env_not_found params_url trace_created =
       (Inr \<lparr>ti_tokenMint = ''Mint'', ti_tokenMetadata = ''ipfs://meta''\<rparr>,
        trace_created @
        [Fetch ''https://e.io/a.png'',
         SdkCreateTokenInfoAndMetadata
           \<lparr>rq_image = Blob [78, 111] ''text/html'', rq_name = ''Test'',
            rq_symbol = ''TEST'', rq_description = ''d'', rq_telegram = None,
            rq_twitter = None, rq_website = None\<rparr>])
   \<and> fst (launchToken env_not_found params_url []) =
       Inr \<lparr>tokenMint = ''Mint'', signature = ''sig:launch'',
            metadataUrl = ''ipfs://meta'', bagsUrl = ''https://bags.fm/Mint'',
            configKey = Some ''Config'', feeShareWallet = None\<rparr>"
proof -
  have "feeShareTwitter params_url = None"
    by (simp add: params_url_def params0_def)
  then have "fst (launchToken env_not_found params_url []) =
       Inr \<lparr>tokenMint = ''Mint'', signature = ''sig:launch'',
            metadataUrl = ''ipfs://meta'', bagsUrl = ''https://bags.fm/Mint'',
            configKey = Some ''Config'', feeShareWallet = None\<rparr>"
    by (simp add: launchToken_def io_defs getOrCreateConfig_env_not_found
        getOrCreateConfig_env0_first createTokenInfo_env_not_found launchFeeShare_def
        launchRequest_def sendTransaction_env_not_found sendTransaction_env0 sign_def)
  then show ?thesis
    by (simp add: createTokenInfo_env_not_found) (simp add: params_url_def)
qed

text \<open>Claim C4, amended. For every launch whose image must be fetched remotely (a non-empty
  URL is supplied, or neither URL nor buffer is supplied and the default placeholder is
  fetched), if the fetch fails with a network error \<open>e\<close> (\<open>fetch\<close> rejects, or reading the
  response body does), \<open>createTokenInfo\<close> fails with \<open>e\<close> itself after that one fetch: no second
  fetch, no metadata published. The error propagates to the caller of \<open>launchToken\<close>: when the
  configuration step before it succeeded, the launch fails with \<open>e\<close> at that point.\<close>

theorem createTokenInfo_fetch_error:
  "((imageUrl params = Some url \<and> url \<noteq> [])
      \<or> (\<not> truthy_string (imageUrl params) \<and> imageFile params = None \<and> url = defaultImage))
    \<and> (fetch env t url = Inl e \<or> (fetch env t url = Inr response \<and> body response = Inl e))
   \<longrightarrow> createTokenInfo env params t = (Inl e, t @ [Fetch url])
       \<and> (getOrCreateConfig env t0 = (Inr cfg, t) \<longrightarrow>
            launchToken env params t0 = (Inl e, t @ [Fetch url]))"
proof (intro impI)
  assume a: "((imageUrl params = Some url \<and> url \<noteq> [])
      \<or> (\<not> truthy_string (imageUrl params) \<and> imageFile params = None \<and> url = defaultImage))
    \<and> (fetch env t url = Inl e \<or> (fetch env t url = Inr response \<and> body response = Inl e))"
  then have r: "resolveImage env params = fetchBlob env url"
    by (auto simp: resolveImage_url resolveImage_default)
  from a have "fetch env t url = Inl e \<or> (fetch env t url = Inr response \<and> body response = Inl e)"
    by blast
  then have c: "createTokenInfo env params t = (Inl e, t @ [Fetch url])"
    by (auto simp: createTokenInfo_fetching [OF r])
  show "createTokenInfo env params t = (Inl e, t @ [Fetch url])
       \<and> (getOrCreateConfig env t0 = (Inr cfg, t) \<longrightarrow>
            launchToken env params t0 = (Inl e, t @ [Fetch url]))"
    using c by (simp add: launchToken_createTokenInfo_fails)
qed

text \<open>Claim C4, amended, at concrete inputs: a launch with an image URL and a launch with the
  default image, on a network where every fetch fails.\<close>

theorem createTokenInfo_fetch_error_witness:
  "imageUrl params_url = Some ''https://e.io/a.png''
   \<and> fetch env_offline trace_created ''https://e.io/a.png'' = Inl (Error ''fetch failed'')
   \<and> createTokenInfo env_offline params_url trace_created =
       (Inl (Error ''fetch failed''), trace_created @ [Fetch ''https://e.io/a.png''])
   \<and> getOrCreateConfig env_offline [] = (Inr config_created, trace_created)
   \<and> launchToken env_offline params_url [] =
       (Inl (Error ''fetch failed''), trace_created @ [Fetch ''https://e.io/a.png''])
   \<and> createTokenInfo env_offline params0 [] = (Inl (Error ''fetch failed''), [Fetch defaultImage])"
proof -
  have u: "imageUrl params_url = Some ''https://e.io/a.png'' \<and> ''https://e.io/a.png'' \<noteq> []"
    by (simp add: params_url_def)
  have d: "\<not> truthy_string (imageUrl params0) \<and> imageFile params0 = None \<and> defaultImage = defaultImage"
    by (simp add: params0_def)
  have f: "fetch env_offline t url = Inl (Error ''fetch failed'')" for t url
    by simp
  have g: "getOrCreateConfig env_offline [] = (Inr config_created, trace_created)"
    by (simp add: getOrCreateConfig_env_offline getOrCreateConfig_env0_first config_created_def
        trace_created_def)
  from createTokenInfo_fetch_error
         [where params = params_url and url = "''https://e.io/a.png''" and env = env_offline
            and t = trace_created and e = "Error ''fetch failed''" and ?t0.0 = "[]"
            and cfg = config_created] u f g
  have 1: "createTokenInfo env_offline params_url trace_created =
       (Inl (Error ''fetch failed''), trace_created @ [Fetch ''https://e.io/a.png''])
     \<and> launchToken env_offline params_url [] =
       (Inl (Error ''fetch failed''), trace_created @ [Fetch ''https://e.io/a.png''])"
    by blast
  from createTokenInfo_fetch_error
         [where params = params0 and url = defaultImage and env = env_offline
            and t = "[]" and e = "Error ''fetch failed''"] d f
  have 2: "createTokenInfo env_offline params0 [] = (Inl (Error ''fetch failed''), [Fetch defaultImage])"
    by auto
  from u f g 1 2 show ?thesis by blast
qed

section \<open>A rejected transaction\<close>

text \<open>Claim C5, at the failing input: the confirmation reports the error value
  \<open>{ InstructionError: [0, { Custom: 1 }] }\<close>. The submission fails and returns no signature, but
  the error thrown is \<open>Transaction failed: [object Object]\<close>: the payload is not in it.\<close>

theorem sendTransaction_object_error:
  "sendTransaction env_rejected tx0 [] =
     (Inl (Error ''Transaction failed: [object Object]''),
      [ConnGetLatestBlockhash,
       ConnSendTransaction tx0 \<lparr>skipPreflight = True, maxRetries = 3\<rparr>,
       ConnConfirmTransaction
         \<lparr>cf_blockhash = ''hash'', cf_lastValidBlockHeight = 100,
          cf_signature = ''sig:create-config''\<rparr> ''processed''])"
  by (simp add: sendTransaction_def io_defs) (simp add: tx0_def)

section \<open>The symbol of the token\<close>

text \<open>Claim C6 fails on the code: \<open>$$test\<close> is submitted as \<open>$TEST\<close>, where stripping the
  leading \<open>$\<close> characters gives \<open>TEST\<close>; and \<open>te$t\<close> is submitted as \<open>TET\<close>, where it gives
  \<open>TE$T\<close>.\<close>

theorem submittedSymbol_first_dollar_counterexample:
  "submittedSymbol ''$$test'' = ''$TEST''
   \<and> leadingDollarsStripped ''$$test'' = ''TEST''
   \<and> submittedSymbol ''te$t'' = ''TET''
   \<and> leadingDollarsStripped ''te$t'' = ''TE$T''"
  by code_simp

text \<open>Claim C6, amended. The symbol submitted is the input uppercased with the first occurrence
  of \<open>$\<close> removed, wherever it is. So it is the uppercased input with the leading \<open>$\<close> stripped
  whenever the input has no \<open>$\<close> after its first character; in particular \<open>$test\<close> is submitted
  as \<open>TEST\<close>.\<close>

theorem submittedSymbol_first_dollar:
  "submittedSymbol s = remove1 (CHR ''$'') (toUpperCase s)
   \<and> (CHR ''$'' \<notin> set (tl s) \<longrightarrow> submittedSymbol s = leadingDollarsStripped s)
   \<and> submittedSymbol ''$test'' = ''TEST''"
  by (simp add: submittedSymbol_agrees submittedSymbol_test)
     (simp add: submittedSymbol_def replace_char_remove1)

text \<open>Claim C6, amended, at the input \<open>$test\<close>.\<close>

theorem submittedSymbol_first_dollar_witness:
  "CHR ''$'' \<notin> set (tl ''$test'')
   \<and> submittedSymbol ''$test'' = leadingDollarsStripped ''$test''
   \<and> leadingDollarsStripped ''$test'' = ''TEST''"
proof -
  have h: "CHR ''$'' \<notin> set (tl ''$test'')" by simp
  have l: "leadingDollarsStripped ''$test'' = ''TEST''" by code_simp
  from submittedSymbol_first_dollar [of "''$test''"] h l show ?thesis by blast
qed

section \<open>The launch configuration\<close>

lemma getOrCreateConfig_answer:
  assumes "getOrCreateConfig env t = (Inr c, t')"
  shows "\<exists>a. sdk_getOrCreateConfig env t (keypair env) = Inr a
           \<and> cr_configKey c = cr_configKey a
           \<and> (cr_transaction c = None \<longleftrightarrow> cr_transaction a = None)"
  using assms
  by (auto simp: getOrCreateConfig_def io_defs split: sum.splits option.splits prod.splits)

lemma getOrCreateConfig_ok_submissions:
  assumes "sdk_getOrCreateConfig env t (keypair env) = Inr a"
    and "getOrCreateConfig env t = (Inr c, t')"
  shows "submissions t' = submissions t @
           (case cr_transaction a of None \<Rightarrow> [] | Some tx \<Rightarrow> [sign tx [keypair env]])"
proof (cases "cr_transaction a")
  case None
  with assms show ?thesis
    by (auto simp: getOrCreateConfig_def io_defs)
next
  case (Some tx)
  with assms
  obtain sg where "sendTransaction env (sign tx [keypair env])
      (t @ [SdkGetOrCreateConfig (keypair env)]) = (Inr sg, t')"
    by (auto simp: getOrCreateConfig_def io_defs split: sum.splits prod.splits)
  from sendTransaction_ok_submissions [OF this] Some show ?thesis by simp
qed

lemma getOrCreateConfig_reuse_run:
  assumes "sdk_getOrCreateConfig env t (keypair env) = Inr c" and "cr_transaction c = None"
  shows "getOrCreateConfig env t = (Inr c, t @ [SdkGetOrCreateConfig (keypair env)])"
  using assms by (simp add: getOrCreateConfig_def io_defs)

lemma getOrCreateConfig_create_run:
  assumes "sdk_getOrCreateConfig env t (keypair env) = Inr c" and "cr_transaction c = Some tx"
  shows "getOrCreateConfig env t =
           io_bind (sendTransaction env (sign tx [keypair env]))
             (\<lambda>sg. io_return (c\<lparr>cr_transaction := Some (sign tx [keypair env])\<rparr>))
             (t @ [SdkGetOrCreateConfig (keypair env)])"
  using assms by (simp add: getOrCreateConfig_def io_defs)

text \<open>Claim C7. \<open>getOrCreateConfig\<close> submits a configuration-creation transaction if and only
  if the protocol's answer contains one. When the answer carries no transaction, the answer is
  returned after the one protocol call, with no submission. When it carries one, the
  transaction is signed with the caller's key and handed to \<open>sendTransaction\<close>. A successful
  call returns the protocol's answer and extends the submissions by exactly the signed
  transaction of the answer, if there is one. So for two consecutive successful calls, the
  second finding the configuration present (no transaction in its answer), with a protocol that
  keys the configuration by the wallet: both calls yield the same configuration handle, the
  second call submits nothing, and at most one creation transaction is submitted in all.\<close>

theorem getOrCreateConfig_idempotent:
  "(sdk_getOrCreateConfig env t (keypair env) = Inr a \<and> cr_transaction a = None \<longrightarrow>
      getOrCreateConfig env t = (Inr a, t @ [SdkGetOrCreateConfig (keypair env)]))
   \<and> (sdk_getOrCreateConfig env t (keypair env) = Inr a \<and> cr_transaction a = Some tx \<longrightarrow>
        getOrCreateConfig env t =
          io_bind (sendTransaction env (sign tx [keypair env]))
            (\<lambda>sg. io_return (a\<lparr>cr_transaction := Some (sign tx [keypair env])\<rparr>))
            (t @ [SdkGetOrCreateConfig (keypair env)]))
   \<and> (sdk_getOrCreateConfig env t (keypair env) = Inr a
        \<and> getOrCreateConfig env t = (Inr c, t') \<longrightarrow>
        cr_configKey c = cr_configKey a
        \<and> submissions t' = submissions t @
            (case cr_transaction a of None \<Rightarrow> [] | Some tx \<Rightarrow> [sign tx [keypair env]]))
   \<and> (getOrCreateConfig env t0 = (Inr c1, t1) \<and> getOrCreateConfig env t1 = (Inr c2, t2)
        \<and> cr_transaction c2 = None
        \<and> (\<forall>u b. sdk_getOrCreateConfig env u (keypair env) = Inr b \<longrightarrow> cr_configKey b = key)
      \<longrightarrow> cr_configKey c1 = cr_configKey c2
          \<and> submissions t2 = submissions t1
          \<and> length (submissions t2) \<le> length (submissions t0) + 1)"
proof (intro conjI impI)
  assume "sdk_getOrCreateConfig env t (keypair env) = Inr a \<and> cr_transaction a = None"
  then show "getOrCreateConfig env t = (Inr a, t @ [SdkGetOrCreateConfig (keypair env)])"
    by (simp add: getOrCreateConfig_reuse_run)
next
  assume "sdk_getOrCreateConfig env t (keypair env) = Inr a \<and> cr_transaction a = Some tx"
  then show "getOrCreateConfig env t =
      io_bind (sendTransaction env (sign tx [keypair env]))
        (\<lambda>sg. io_return (a\<lparr>cr_transaction := Some (sign tx [keypair env])\<rparr>))
        (t @ [SdkGetOrCreateConfig (keypair env)])"
    by (simp add: getOrCreateConfig_create_run)
next
  assume r: "sdk_getOrCreateConfig env t (keypair env) = Inr a
      \<and> getOrCreateConfig env t = (Inr c, t')"
  with getOrCreateConfig_answer [of env t c t'] show "cr_configKey c = cr_configKey a"
    by auto
  from r show "submissions t' = submissions t @
      (case cr_transaction a of None \<Rightarrow> [] | Some tx \<Rightarrow> [sign tx [keypair env]])"
    by (simp add: getOrCreateConfig_ok_submissions)
next
  assume a: "getOrCreateConfig env t0 = (Inr c1, t1) \<and> getOrCreateConfig env t1 = (Inr c2, t2)
        \<and> cr_transaction c2 = None
        \<and> (\<forall>u b. sdk_getOrCreateConfig env u (keypair env) = Inr b \<longrightarrow> cr_configKey b = key)"
  then have r1: "getOrCreateConfig env t0 = (Inr c1, t1)"
    and r2: "getOrCreateConfig env t1 = (Inr c2, t2)"
    and none: "cr_transaction c2 = None"
    and keyed: "\<And>u b. sdk_getOrCreateConfig env u (keypair env) = Inr b \<Longrightarrow> cr_configKey b = key"
    by blast+
  from getOrCreateConfig_answer [OF r1] obtain a1
    where a1: "sdk_getOrCreateConfig env t0 (keypair env) = Inr a1"
      "cr_configKey c1 = cr_configKey a1"
    by blast
  from getOrCreateConfig_answer [OF r2] none obtain a2
    where a2: "sdk_getOrCreateConfig env t1 (keypair env) = Inr a2"
      "cr_configKey c2 = cr_configKey a2" "cr_transaction a2 = None"
    by blast
  from keyed [OF a1(1)] keyed [OF a2(1)] a1(2) a2(2)
  show "cr_configKey c1 = cr_configKey c2" by simp
  from getOrCreateConfig_ok_submissions [OF a2(1) r2] a2(3)
  show s2: "submissions t2 = submissions t1" by simp
  from getOrCreateConfig_ok_submissions [OF a1(1) r1] s2
  show "length (submissions t2) \<le> length (submissions t0) + 1"
    by (simp split: option.splits)
qed

text \<open>Claim C7, at a concrete input: in \<open>env0\<close> the first call creates the configuration
  (one submission), the second call reuses it.\<close>

theorem getOrCreateConfig_idempotent_witness:
  "sdk_getOrCreateConfig env0 [] (keypair env0) = Inr config_answer
   \<and> cr_transaction config_answer = Some tx0
   \<and> getOrCreateConfig env0 [] =
       io_bind (sendTransaction env0 (sign tx0 [keypair env0]))
         (\<lambda>sg. io_return (config_answer\<lparr>cr_transaction := Some (sign tx0 [keypair env0])\<rparr>))
         [SdkGetOrCreateConfig (keypair env0)]
   \<and> getOrCreateConfig env0 [] = (Inr config_created, trace_created)
   \<and> sdk_getOrCreateConfig env0 trace_created (keypair env0) = Inr config_reused
   \<and> cr_transaction config_reused = None
   \<and> getOrCreateConfig env0 trace_created = (Inr config_reused, trace_reused)
   \<and> cr_configKey config_created = cr_configKey config_reused
   \<and> submissions trace_created = [sign tx0 [PublicKey ''Creator'']]
   \<and> submissions trace_reused = submissions trace_created
   \<and> length (submissions trace_reused) \<le> length (submissions []) + 1"
proof -
  have r1: "getOrCreateConfig env0 [] = (Inr config_created, trace_created)"
    by (simp add: getOrCreateConfig_env0_first config_created_def trace_created_def)
  have none: "cr_transaction config_reused = None"
    by (simp add: config_reused_def)
  have some: "cr_transaction config_answer = Some tx0"
    by (simp add: config_answer_def)
  have ans1: "sdk_getOrCreateConfig env0 [] (keypair env0) = Inr config_answer"
    by (simp add: config_answer_def)
  have ans2: "sdk_getOrCreateConfig env0 trace_created (keypair env0) = Inr config_reused"
    by (simp add: config_reused_def trace_created_def)
  have keyed: "\<forall>u b. sdk_getOrCreateConfig env0 u (keypair env0) = Inr b
                 \<longrightarrow> cr_configKey b = PublicKey ''Config''"
    by auto
  note first = getOrCreateConfig_idempotent
         [where env = env0 and t = "[]" and a = config_answer and c = config_created
            and t' = trace_created and tx = tx0]
  from first ans1 some have b: "getOrCreateConfig env0 [] =
       io_bind (sendTransaction env0 (sign tx0 [keypair env0]))
         (\<lambda>sg. io_return (config_answer\<lparr>cr_transaction := Some (sign tx0 [keypair env0])\<rparr>))
         ([] @ [SdkGetOrCreateConfig (keypair env0)])"
    by blast
  from first ans1 r1 have "submissions trace_created = submissions [] @
      (case cr_transaction config_answer of None \<Rightarrow> []
       | Some tx \<Rightarrow> [sign tx [keypair env0]])"
    by blast
  with some have s1: "submissions trace_created = [sign tx0 [PublicKey ''Creator'']]"
    by simp
  note second = getOrCreateConfig_idempotent
         [where env = env0 and t = trace_created and a = config_reused
            and ?t0.0 = "[]" and ?c1.0 = config_created and ?t1.0 = trace_created
            and ?c2.0 = config_reused and ?t2.0 = trace_reused
            and key = "PublicKey ''Config''"]
  from second ans2 none
  have "getOrCreateConfig env0 trace_created =
      (Inr config_reused, trace_created @ [SdkGetOrCreateConfig (keypair env0)])"
    by blast
  then have r2: "getOrCreateConfig env0 trace_created = (Inr config_reused, trace_reused)"
    by (simp add: trace_reused_def)
  from second r1 r2 none keyed
  have "cr_configKey config_created = cr_configKey config_reused
      \<and> submissions trace_reused = submissions trace_created
      \<and> length (submissions trace_reused) \<le> length (submissions []) + 1"
    by blast
  with r1 r2 none some ans1 ans2 s1 b show ?thesis by simp
qed

section \<open>The priority of the image sources\<close>

text \<open>Claim C8. Image resolution follows a strict priority. If a (non-empty) remote URL is
  given, it is the one URL fetched, whether a local buffer is given or not, and the blob
  fetched is the image published. Else, if a local buffer is given, the only call is the
  publication of the metadata with the buffer wrapped as an \<open>image/png\<close> blob: nothing is
  fetched. Else the fixed default placeholder URL is the one URL fetched, and the blob fetched
  is the image published.\<close>

theorem createTokenInfo_image_priority:
  "(imageUrl params = Some url \<and> url \<noteq> [] \<longrightarrow>
      fetches (calls (createTokenInfo env params) t) = [url]
      \<and> (fetch env t url = Inr response \<and> body response = Inr b \<longrightarrow>
           calls (createTokenInfo env params) t =
             [Fetch url, SdkCreateTokenInfoAndMetadata (tokenInfoRequest params b)]))
   \<and> (\<not> truthy_string (imageUrl params) \<and> imageFile params = Some buf \<longrightarrow>
        calls (createTokenInfo env params) t =
          [SdkCreateTokenInfoAndMetadata (tokenInfoRequest params (Blob buf ''image/png''))])
   \<and> (\<not> truthy_string (imageUrl params) \<and> imageFile params = None \<longrightarrow>
        fetches (calls (createTokenInfo env params) t) = [defaultImage]
        \<and> (fetch env t defaultImage = Inr response \<and> body response = Inr b \<longrightarrow>
             calls (createTokenInfo env params) t =
               [Fetch defaultImage, SdkCreateTokenInfoAndMetadata (tokenInfoRequest params b)]))"
proof (intro conjI impI)
  assume "imageUrl params = Some url \<and> url \<noteq> []"
  then have r: "resolveImage env params = fetchBlob env url"
    by (simp add: resolveImage_url)
  show "fetches (calls (createTokenInfo env params) t) = [url]"
    by (rule createTokenInfo_fetches [OF r])
  assume "fetch env t url = Inr response \<and> body response = Inr b"
  then show "calls (createTokenInfo env params) t =
      [Fetch url, SdkCreateTokenInfoAndMetadata (tokenInfoRequest params b)]"
    by (simp add: createTokenInfo_fetching [OF r] calls_def)
next
  assume "\<not> truthy_string (imageUrl params) \<and> imageFile params = Some buf"
  then have "resolveImage env params = io_return (Blob buf ''image/png'')"
    by (simp add: resolveImage_file)
  then show "calls (createTokenInfo env params) t =
      [SdkCreateTokenInfoAndMetadata (tokenInfoRequest params (Blob buf ''image/png''))]"
    by (simp add: createTokenInfo_file calls_def)
next
  assume "\<not> truthy_string (imageUrl params) \<and> imageFile params = None"
  then have r: "resolveImage env params = fetchBlob env defaultImage"
    by (simp add: resolveImage_default)
  show "fetches (calls (createTokenInfo env params) t) = [defaultImage]"
    by (rule createTokenInfo_fetches [OF r])
  assume "fetch env t defaultImage = Inr response \<and> body response = Inr b"
  then show "calls (createTokenInfo env params) t =
      [Fetch defaultImage, SdkCreateTokenInfoAndMetadata (tokenInfoRequest params b)]"
    by (simp add: createTokenInfo_fetching [OF r] calls_def)
qed

text \<open>Claim C8, at concrete inputs: a launch with a URL and a buffer, one with a buffer only,
  and one with neither.\<close>

theorem createTokenInfo_image_priority_witness:
  "fetches (calls (createTokenInfo env0 params_url_and_file) []) = [''https://e.io/a.png'']
   \<and> calls (createTokenInfo env0 params_url_and_file) [] =
       [Fetch ''https://e.io/a.png'',
        SdkCreateTokenInfoAndMetadata
          (tokenInfoRequest params_url_and_file (Blob [1, 2, 3] ''image/jpeg''))]
   \<and> calls (createTokenInfo env0 params_file) [] =
       [SdkCreateTokenInfoAndMetadata (tokenInfoRequest params_file (Blob [7] ''image/png''))]
   \<and> fetches (calls (createTokenInfo env0 params0) []) = [defaultImage]"
proof -
  have u: "imageUrl params_url_and_file = Some ''https://e.io/a.png'' \<and> ''https://e.io/a.png'' \<noteq> []"
    by (simp add: params_url_and_file_def)
  have f: "fetch env0 [] ''https://e.io/a.png''
             = Inr \<lparr>status = 200, body = Inr (Blob [1, 2, 3] ''image/jpeg'')\<rparr>
           \<and> body \<lparr>status = 200, body = Inr (Blob [1, 2, 3] ''image/jpeg'')\<rparr>
             = Inr (Blob [1, 2, 3] ''image/jpeg'')"
    by simp
  have b: "\<not> truthy_string (imageUrl params_file) \<and> imageFile params_file = Some [7]"
    by (simp add: params_file_def params0_def)
  have d: "\<not> truthy_string (imageUrl params0) \<and> imageFile params0 = None"
    by (simp add: params0_def)
  from createTokenInfo_image_priority
         [where params = params_url_and_file and url = "''https://e.io/a.png''" and env = env0
            and t = "[]" and b = "Blob [1, 2, 3] ''image/jpeg''"
            and response = "\<lparr>status = 200, body = Inr (Blob [1, 2, 3] ''image/jpeg'')\<rparr>"] u f
  have 1: "fetches (calls (createTokenInfo env0 params_url_and_file) []) = [''https://e.io/a.png'']
     \<and> calls (createTokenInfo env0 params_url_and_file) [] =
       [Fetch ''https://e.io/a.png'',
        SdkCreateTokenInfoAndMetadata
          (tokenInfoRequest params_url_and_file (Blob [1, 2, 3] ''image/jpeg''))]"
    by blast
  from createTokenInfo_image_priority
         [where params = params_file and buf = "[7]" and env = env0 and t = "[]"] b
  have 2: "calls (createTokenInfo env0 params_file) [] =
       [SdkCreateTokenInfoAndMetadata (tokenInfoRequest params_file (Blob [7] ''image/png''))]"
    by blast
  from createTokenInfo_image_priority [where params = params0 and env = env0 and t = "[]"] d
  have 3: "fetches (calls (createTokenInfo env0 params0) []) = [defaultImage]"
    by blast
  from 1 2 3 show ?thesis by blast
qed

section \<open>The token filter of the claims\<close>

lemma onlyFor_active: "onlyFor P a evs \<Longrightarrow> onlyFor P True evs"
  by (induction P a evs rule: onlyFor.induct) auto

lemma onlyFor_append:
  "onlyFor P True xs \<Longrightarrow> (\<And>a. onlyFor P a ys) \<Longrightarrow> onlyFor P True (xs @ ys)"
  by (induction P True xs rule: onlyFor.induct) auto

lemma onlyFor_append_active:
  "onlyFor P True xs \<Longrightarrow> onlyFor P True ys \<Longrightarrow> onlyFor P True (xs @ ys)"
  by (induction P True xs rule: onlyFor.induct) auto

lemma onlyFor_requests:
  "onlyFor P a evs \<Longrightarrow> SdkGetClaimTransaction k p \<in> set evs \<Longrightarrow> P p"
  by (induction P a evs rule: onlyFor.induct) auto

lemma sendTransaction_onlyFor:
  assumes "sendTransaction env tx t = (r, t')"
  shows "\<exists>evs. t' = t @ evs \<and> onlyFor P True evs"
  using assms by (auto simp: sendTransaction_def io_defs split: sum.splits if_splits)

lemma claimTxsLoop_onlyFor:
  "claimTxsLoop env txs sigs t = (r, t') \<Longrightarrow> \<exists>evs. t' = t @ evs \<and> onlyFor P True evs"
proof (induction txs arbitrary: sigs t)
  case Nil
  then show ?case by (auto simp: io_defs)
next
  case (Cons tx txs)
  obtain r1 t1 where s: "sendTransaction env (sign tx [keypair env]) t = (r1, t1)"
    by (cases "sendTransaction env (sign tx [keypair env]) t")
  from sendTransaction_onlyFor [OF s] obtain evs1
    where e1: "t1 = t @ evs1" "onlyFor P True evs1" by blast
  show ?case
  proof (cases r1)
    case (Inl e)
    with Cons.prems s e1 show ?thesis by (auto simp: io_bind_def)
  next
    case (Inr sg)
    with Cons.prems s have "claimTxsLoop env txs (sigs @ [sg]) t1 = (r, t')"
      by (simp add: io_bind_def)
    from Cons.IH [OF this] obtain evs2 where e2: "t' = t1 @ evs2" "onlyFor P True evs2"
      by blast
    with e1 have "t' = t @ (evs1 @ evs2)" "onlyFor P True (evs1 @ evs2)"
      by (simp_all add: onlyFor_append_active)
    then show ?thesis by blast
  qed
qed

lemma claimPositionsLoop_onlyFor:
  "\<forall>p \<in> set ps. P p \<Longrightarrow> claimPositionsLoop env ps sigs t = (r, t') \<Longrightarrow>
   \<exists>evs. t' = t @ evs \<and> (\<forall>a. onlyFor P a evs)"
proof (induction ps arbitrary: sigs t)
  case Nil
  then show ?case by (auto simp: io_defs)
next
  case (Cons p ps)
  let ?t1 = "t @ [SdkGetClaimTransaction (keypair env) p]"
  show ?case
  proof (cases "sdk_getClaimTransaction env t (keypair env) p")
    case (Inl e)
    with Cons.prems show ?thesis by (auto simp: io_defs)
  next
    case (Inr txs)
    obtain r2 t2 where l: "claimTxsLoop env txs sigs ?t1 = (r2, t2)"
      by (cases "claimTxsLoop env txs sigs ?t1")
    from claimTxsLoop_onlyFor [OF l] obtain evs2
      where e2: "t2 = ?t1 @ evs2" "onlyFor P True evs2" by blast
    show ?thesis
    proof (cases r2)
      case (Inl e)
      with Cons.prems Inr l e2 have "t' = t @ (SdkGetClaimTransaction (keypair env) p # evs2)"
        by (auto simp: io_defs)
      moreover from Cons.prems e2 have "\<forall>a. onlyFor P a (SdkGetClaimTransaction (keypair env) p # evs2)"
        by simp
      ultimately show ?thesis by blast
    next
      case (Inr sigs')
      with Cons.prems \<open>sdk_getClaimTransaction env t (keypair env) p = Inr txs\<close> l
      have "claimPositionsLoop env ps sigs' t2 = (r, t')"
        by (simp add: io_defs)
      from Cons.IH [OF _ this] Cons.prems obtain evs3
        where e3: "t' = t2 @ evs3" "\<forall>a. onlyFor P a evs3" by auto
      with e2 have "t' = t @ (SdkGetClaimTransaction (keypair env) p # (evs2 @ evs3))"
        by simp
      moreover from Cons.prems e2 e3
      have "\<forall>a. onlyFor P a (SdkGetClaimTransaction (keypair env) p # (evs2 @ evs3))"
        by (simp add: onlyFor_append)
      ultimately show ?thesis by blast
    qed
  qed
qed

lemma claimFees_onlyFor:
  assumes "m \<noteq> []"
  shows "onlyFor (\<lambda>p. pos_baseMint p = m) False (calls (claimFees env (Some m)) t)"
proof -
  let ?P = "\<lambda>p. pos_baseMint p = m"
  let ?t1 = "t @ [SdkGetAllClaimablePositions (keypair env)]"
  show ?thesis
  proof (cases "sdk_getAllClaimablePositions env t (keypair env)")
    case (Inl e)
    then show ?thesis
      by (simp add: claimFees_def getClaimablePositions_def io_defs calls_def)
  next
    case (Inr positions)
    show ?thesis
    proof (cases "positions = []")
      case True
      with Inr show ?thesis
        by (simp add: claimFees_def getClaimablePositions_def io_defs calls_def)
    next
      case False
      obtain r t' where l: "claimPositionsLoop env (targetPositions (Some m) positions) [] ?t1 = (r, t')"
        by (cases "claimPositionsLoop env (targetPositions (Some m) positions) [] ?t1")
      have "\<forall>p \<in> set (targetPositions (Some m) positions). ?P p"
        using assms by (auto simp: targetPositions_def)
      from claimPositionsLoop_onlyFor [OF this l] obtain evs
        where e: "t' = ?t1 @ evs" "\<forall>a. onlyFor ?P a evs" by blast
      from Inr False l have "snd (claimFees env (Some m) t) = t'"
        by (simp add: claimFees_def getClaimablePositions_def io_defs)
      with e show ?thesis by (simp add: calls_def)
    qed
  qed
qed

text \<open>Claim C9. For every answer of the protocol, whatever the claimable positions, and every
  given (non-empty) token filter \<open>m\<close>: among the calls of \<open>claimFees\<close>, every claim-transaction
  request is for a position whose \<open>baseMint\<close> is \<open>m\<close>, and every transaction is submitted after
  such a request. Positions with another \<open>baseMint\<close> are untouched.\<close>

theorem claimFees_filter:
  "m \<noteq> [] \<longrightarrow>
     onlyFor (\<lambda>p. pos_baseMint p = m) False (calls (claimFees env (Some m)) t)
     \<and> (\<forall>k p. SdkGetClaimTransaction k p \<in> set (calls (claimFees env (Some m)) t)
           \<longrightarrow> pos_baseMint p = m)"
  using claimFees_onlyFor onlyFor_requests by blast

text \<open>Claim C9, at a concrete input: of three positions, the two of \<open>MintA\<close> are claimed and
  the one of \<open>MintB\<close> is not requested.\<close>

theorem claimFees_filter_witness:
  "''MintA'' \<noteq> []
   \<and> onlyFor (\<lambda>p. pos_baseMint p = ''MintA'') False (calls (claimFees env_claims (Some ''MintA'')) [])
   \<and> calls (claimFees env_claims (Some ''MintA'')) [] =
      [SdkGetAllClaimablePositions (PublicKey ''Creator''),
       SdkGetClaimTransaction (PublicKey ''Creator'') pos_a]
      @ submission (signed_claim ''a1'') @ submission (signed_claim ''a2'')
      @ submission (signed_claim ''a3'')
      @ [SdkGetClaimTransaction (PublicKey ''Creator'') pos_c]
      @ submission (signed_claim ''c1'')
   \<and> pos_baseMint pos_b \<noteq> ''MintA''
   \<and> SdkGetClaimTransaction (PublicKey ''Creator'') pos_b
       \<notin> set (calls (claimFees env_claims (Some ''MintA'')) [])"
proof -
  have h: "''MintA'' \<noteq> []" by simp
  from claimFees_filter [where m = "''MintA''" and env = env_claims and t = "[]"] h
  have o: "onlyFor (\<lambda>p. pos_baseMint p = ''MintA'') False
             (calls (claimFees env_claims (Some ''MintA'')) [])"
    and r: "\<forall>k p. SdkGetClaimTransaction k p \<in> set (calls (claimFees env_claims (Some ''MintA'')) [])
           \<longrightarrow> pos_baseMint p = ''MintA''"
    by blast+
  have b: "pos_baseMint pos_b \<noteq> ''MintA''" by simp
  with r have n: "SdkGetClaimTransaction (PublicKey ''Creator'') pos_b
       \<notin> set (calls (claimFees env_claims (Some ''MintA'')) [])"
    by blast
  have c: "calls (claimFees env_claims (Some ''MintA'')) [] =
      [SdkGetAllClaimablePositions (PublicKey ''Creator''),
       SdkGetClaimTransaction (PublicKey ''Creator'') pos_a]
      @ submission (signed_claim ''a1'') @ submission (signed_claim ''a2'')
      @ submission (signed_claim ''a3'')
      @ [SdkGetClaimTransaction (PublicKey ''Creator'') pos_c]
      @ submission (signed_claim ''c1'')"
    by (simp add: calls_def claimFees_env_claims_filtered)
  from h o c b n show ?thesis by blast
qed

section \<open>Zero and absent numbers\<close>

text \<open>Claim C10. At \<open>launchToken\<close> a supplied \<open>0\<close> is indistinguishable from an absent value:
  the launch with \<open>initialBuyAmountSol = 0\<close> is the launch without it, and buys for
  \<open>0.01 * LAMPORTS_PER_SOL = 10000000\<close> lamports; the launch with \<open>creatorFeeBps = 0\<close> is the
  launch without it, and the launch with \<open>feeShareBps = 0\<close> is the launch without it; with
  \<open>feeShareTwitter\<close> present, the fee-share setup is called with the creator share \<open>1000\<close> when
  \<open>creatorFeeBps = 0\<close> and with the partner share \<open>9000\<close> when \<open>feeShareBps = 0\<close>.\<close>

theorem launchToken_zero_is_absent:
  "launchToken env (params\<lparr>initialBuyAmountSol := Some 0\<rparr>)
     = launchToken env (params\<lparr>initialBuyAmountSol := None\<rparr>)
   \<and> launchInitialBuyLamports (params\<lparr>initialBuyAmountSol := Some 0\<rparr>) = 10000000
   \<and> launchToken env (params\<lparr>creatorFeeBps := Some 0\<rparr>)
       = launchToken env (params\<lparr>creatorFeeBps := None\<rparr>)
   \<and> launchToken env (params\<lparr>feeShareBps := Some 0\<rparr>)
       = launchToken env (params\<lparr>feeShareBps := None\<rparr>)
   \<and> (feeShareTwitter params = Some h \<and> h \<noteq> [] \<and> creatorFeeBps params = Some 0 \<longrightarrow>
        launchFeeShare env params cfg ti =
          io_bind (setupFeeSharing env h 1000 (snd (launchFeeBps params)) (ti_tokenMint ti))
            (\<lambda>r. io_return (fs_configKey r, Some (fs_feeShareWallet r))))
   \<and> (feeShareTwitter params = Some h \<and> h \<noteq> [] \<and> feeShareBps params = Some 0 \<longrightarrow>
        launchFeeShare env params cfg ti =
          io_bind (setupFeeSharing env h (fst (launchFeeBps params)) 9000 (ti_tokenMint ti))
            (\<lambda>r. io_return (fs_configKey r, Some (fs_feeShareWallet r))))"
proof (intro conjI impI)
  show "launchToken env (params\<lparr>initialBuyAmountSol := Some 0\<rparr>)
     = launchToken env (params\<lparr>initialBuyAmountSol := None\<rparr>)"
    by (intro launchToken_fields createTokenInfo_fields launchFeeShare_fields)
      (simp_all add: launchFeeBps_def launchInitialBuyLamports_def)
  show "launchInitialBuyLamports (params\<lparr>initialBuyAmountSol := Some 0\<rparr>) = 10000000"
    by (simp add: launchInitialBuyLamports_def LAMPORTS_PER_SOL_def)
  show "launchToken env (params\<lparr>creatorFeeBps := Some 0\<rparr>)
       = launchToken env (params\<lparr>creatorFeeBps := None\<rparr>)"
    by (intro launchToken_fields createTokenInfo_fields launchFeeShare_fields)
      (simp_all add: launchFeeBps_def launchInitialBuyLamports_def)
  show "launchToken env (params\<lparr>feeShareBps := Some 0\<rparr>)
       = launchToken env (params\<lparr>feeShareBps := None\<rparr>)"
    by (intro launchToken_fields createTokenInfo_fields launchFeeShare_fields)
      (simp_all add: launchFeeBps_def launchInitialBuyLamports_def)
next
  assume "feeShareTwitter params = Some h \<and> h \<noteq> [] \<and> creatorFeeBps params = Some 0"
  then show "launchFeeShare env params cfg ti =
      io_bind (setupFeeSharing env h 1000 (snd (launchFeeBps params)) (ti_tokenMint ti))
        (\<lambda>r. io_return (fs_configKey r, Some (fs_feeShareWallet r)))"
    by (simp add: launchFeeShare_setup) (simp add: launchFeeBps_def)
next
  assume "feeShareTwitter params = Some h \<and> h \<noteq> [] \<and> feeShareBps params = Some 0"
  then show "launchFeeShare env params cfg ti =
      io_bind (setupFeeSharing env h (fst (launchFeeBps params)) 9000 (ti_tokenMint ti))
        (\<lambda>r. io_return (fs_configKey r, Some (fs_feeShareWallet r)))"
    by (simp add: launchFeeShare_setup) (simp add: launchFeeBps_def)
qed

text \<open>Claim C10, at a concrete input: the launch for \<open>alice\<close> with the three numbers supplied
  as \<open>0\<close> is the launch with none of them supplied; its fee-share setup gets \<open>1000\<close> and
  \<open>9000\<close>, and its launch transaction buys for \<open>10000000\<close> lamports.\<close>

theorem launchToken_zero_is_absent_witness:
  "feeShareTwitter params_zero = Some ''alice''
   \<and> creatorFeeBps params_zero = Some 0 \<and> feeShareBps params_zero = Some 0
   \<and> initialBuyAmountSol params_zero = Some 0
   \<and> calls (launchFeeShare env0 params_zero config_created token_info0) [] =
       [SdkGetLaunchWalletForTwitterUsername ''alice'',
        SdkCreateFeeShareConfig
          \<lparr>users = [\<lparr>wallet = PublicKey ''Creator'', bps = 1000\<rparr>,
                    \<lparr>wallet = PublicKey ''Alice'', bps = 9000\<rparr>],
           payer = PublicKey ''Creator'', baseMint = PublicKey ''Mint'',
           quoteMint = PublicKey wSOL\<rparr>]
   \<and> launchToken env0 params_zero = launchToken env0 params_default_split
   \<and> SdkCreateLaunchTransaction
       \<lparr>lq_metadataUrl = ''ipfs://meta'', lq_tokenMint = PublicKey ''Mint'',
        launchWallet = PublicKey ''Creator'', initialBuyLamports = 10000000,
        lq_configKey = PublicKey ''FeeConfig''\<rparr>
      \<in> set (snd (launchToken env0 params_zero []))"
proof -
  have h: "feeShareTwitter params_zero = Some ''alice'' \<and> ''alice'' \<noteq> []
      \<and> creatorFeeBps params_zero = Some 0"
    by (simp add: params_zero_def)
  have s: "feeShareBps params_zero = Some 0 \<and> initialBuyAmountSol params_zero = Some 0"
    by (simp add: params_zero_def)
  note inst = launchToken_zero_is_absent
         [where params = params_zero and h = "''alice''" and env = env0
            and cfg = config_created and ti = token_info0]
  from inst h have "launchFeeShare env0 params_zero config_created token_info0 =
          io_bind (setupFeeSharing env0 ''alice'' 1000 (snd (launchFeeBps params_zero))
                     (ti_tokenMint token_info0))
            (\<lambda>r. io_return (fs_configKey r, Some (fs_feeShareWallet r)))"
    by blast
  moreover have "snd (launchFeeBps params_zero) = 9000"
    by (simp add: launchFeeBps_def params_zero_def)
  ultimately have run: "calls (launchFeeShare env0 params_zero config_created token_info0) [] =
       [SdkGetLaunchWalletForTwitterUsername ''alice'',
        SdkCreateFeeShareConfig
          \<lparr>users = [\<lparr>wallet = PublicKey ''Creator'', bps = 1000\<rparr>,
                    \<lparr>wallet = PublicKey ''Alice'', bps = 9000\<rparr>],
           payer = PublicKey ''Creator'', baseMint = PublicKey ''Mint'',
           quoteMint = PublicKey wSOL\<rparr>]"
    by (simp add: token_info0_def io_defs setupFeeSharing_env0 calls_def)
  have z: "params_zero =
      params0\<lparr>feeShareTwitter := Some ''alice'', creatorFeeBps := Some 0, feeShareBps := Some 0\<rparr>
        \<lparr>initialBuyAmountSol := Some 0\<rparr>"
    by (simp add: params_zero_def)
  have lam: "launchInitialBuyLamports params_zero = 10000000"
    unfolding z using launchToken_zero_is_absent by blast
  have info: "createTokenInfo env0 params_zero = createTokenInfo env0 params0"
    by (rule createTokenInfo_env0_any) (simp_all add: params_zero_def params0_def)
  have "SdkCreateLaunchTransaction
       \<lparr>lq_metadataUrl = ''ipfs://meta'', lq_tokenMint = PublicKey ''Mint'',
        launchWallet = PublicKey ''Creator'', initialBuyLamports = 10000000,
        lq_configKey = PublicKey ''FeeConfig''\<rparr>
      \<in> set (snd (launchToken env0 params_zero []))"
    using h by (simp add: launchToken_env0_fee_share [OF info] lam)
  moreover have "launchToken env0 params_zero = launchToken env0 params_default_split"
    by (intro launchToken_fields createTokenInfo_fields launchFeeShare_fields)
       (simp_all add: launchFeeBps_def launchInitialBuyLamports_def params_zero_def
         params_default_split_def params0_def)
  ultimately show ?thesis using h s run by blast
qed
end
